theory Spec2Isabelle
  imports Complex_Main "HOL-Library.AList"
begin

section \<open>Data model (backend/models.py)\<close>

text \<open>
  The pydantic models of \<^verbatim>\<open>models.py\<close> become records and the string enums become
  datatypes. A field name that several models share (\<^verbatim>\<open>user_id\<close>, \<^verbatim>\<open>plan_id\<close>,
  \<^verbatim>\<open>week_number\<close>, \<^verbatim>\<open>day\<close>, \<^verbatim>\<open>exercises\<close>) keeps its name in the first
  record and carries the initials of its model in the others (\<open>wp_user_id\<close> of a
  WorkoutPlan, \<open>wl_plan_id\<close> of a WorkoutLog, \<open>wm_week_number\<close> of WeeklyMetrics).
  Python's unbounded \<^verbatim>\<open>int\<close> is \<open>int\<close>. A Python \<^verbatim>\<open>float\<close> is modelled by the real
  number it stands for: rounding and the special values (nan, the infinities) are
  not modelled. The timestamps \<^verbatim>\<open>created_at\<close>, \<^verbatim>\<open>updated_at\<close>, \<^verbatim>\<open>completed_at\<close> are left
  out of the records: nothing in the workflow engine reads them.
\<close>

datatype ExperienceLevel = beginner | intermediate | advanced

datatype WorkoutDay = monday | tuesday | wednesday | thursday | friday

record Schedule =
  days_per_week :: int
  session_duration :: int
  preferred_times :: "string list"

record Constraints =
  injuries :: "string list"
  limitations :: "string list"

record PlannedExercise =
  exercise_id :: string
  exercise_name :: string
  sets :: int
  reps :: string
  rest_seconds :: int
  target_rpe :: int
  pe_notes :: "string option"

record DayPlan =
  day :: WorkoutDay
  focus :: string
  exercises :: "PlannedExercise list"
  estimated_duration :: int

record CompletedExercise =
  ce_exercise_id :: string
  ce_exercise_name :: string
  completed_sets :: int
  actual_reps :: "int list"
  weight_used :: "real option"
  rpe :: int
  ce_notes :: "string option"

record ProgressionIndicators =
  strength_gains :: bool
  endurance_improvements :: bool
  form_quality :: string

record UserProfile =
  user_id :: string
  goals :: "string list"
  experience_level :: ExperienceLevel
  equipment :: "string list"
  schedule :: Schedule
  constraints :: Constraints

record WorkoutPlan =
  plan_id :: string
  wp_user_id :: string
  week_number :: int
  days :: "DayPlan list"
  adaptation_rationale :: "string option"

record WorkoutLog =
  log_id :: string
  wl_user_id :: string
  wl_plan_id :: string
  wl_day :: WorkoutDay
  wl_exercises :: "CompletedExercise list"
  session_rpe :: int
  duration_minutes :: int
  general_feedback :: "string option"

record WeeklyMetrics =
  wm_user_id :: string
  wm_week_number :: int
  adherence_rate :: real
  average_rpe :: real
  completed_sessions :: int
  total_planned_sessions :: int
  progression_indicators :: ProgressionIndicators
  concerns :: "string list"

text \<open>
  \<^verbatim>\<open>Dict[str, Any]\<close> fields and the values \<^verbatim>\<open>json.loads\<close> returns are Python objects
  of no fixed type. \<open>pyval\<close> is the part of Python's object universe they range
  over; a dict is its list of items in insertion order, looked up with \<open>map_of\<close>.
\<close>

datatype pyval =
    PNone
  | PBool bool
  | PInt int
  | PFloat real
  | PStr string
  | PList "pyval list"
  | PDict "(string \<times> pyval) list"

record WorkoutState =
  user_profile :: "UserProfile option"
  current_week :: int
  plan_history :: "WorkoutPlan list"
  current_plan :: "WorkoutPlan option"
  logs :: "WorkoutLog list"
  feedback_analysis :: "(string \<times> pyval) list"
  metrics :: "WeeklyMetrics option"
  adaptation_context :: "(string \<times> pyval) list"
  workflow_stage :: string
  error_context :: "string option"

section \<open>Exceptions\<close>

text \<open>
  Every \<^verbatim>\<open>raise\<close> of the source and every exception a library call or an attribute
  access can raise is a value of \<open>exn\<close>; a function that can raise returns
  \<open>exn + 'a\<close> with \<open>Inl\<close> the exception. \<open>ExternalError\<close> is any exception raised
  by the call to the generative model.
\<close>

datatype exn =
    AttributeError
  | TypeError
  | KeyError
  | ValueError string
  | ZeroDivisionError
  | OverflowError
  | JSONDecodeError
  | ValidationError
  | ExternalError string

section \<open>The repository (backend/database.py)\<close>

text \<open>
  The three SQL tables the engine uses are lists of rows. A \<^verbatim>\<open>SELECT ... WHERE key = ?\<close>
  followed by \<^verbatim>\<open>fetchone\<close> is \<open>find\<close>; \<^verbatim>\<open>INSERT OR REPLACE\<close> on a primary key removes the
  row with that key and adds the new one. A row is stored as the model it was
  written from (the JSON text columns are not modelled). A primary key is distinct in
  its table: \<open>distinct (map plan_id (workout_plans db))\<close> is the invariant of the plans
  table, kept by \<open>save_workout_plan\<close>.

  sqlite binds a Python \<^verbatim>\<open>int\<close> parameter as a signed 64-bit INTEGER and raises
  OverflowError for an int outside that range (\<open>sqlite_int\<close>). The week number is the
  one unbounded int the engine passes as a parameter: in the INSERT of
  \<^verbatim>\<open>save_workout_plan\<close> and in the query of \<^verbatim>\<open>get_week_logs\<close>.
\<close>

record database =
  users :: "UserProfile list"
  workout_plans :: "WorkoutPlan list"
  workout_logs :: "WorkoutLog list"

definition sqlite_int :: "int \<Rightarrow> bool" where
  "sqlite_int i = (- (2 ^ 63) \<le> i \<and> i < 2 ^ 63)"

definition get_user_profile :: "database \<Rightarrow> string \<Rightarrow> UserProfile option" where
  "get_user_profile db uid = find (\<lambda>p. user_id p = uid) (users db)"

definition save_workout_plan :: "database \<Rightarrow> WorkoutPlan \<Rightarrow> exn + database" where
  "save_workout_plan db plan =
     (if sqlite_int (week_number plan)
      then Inr (db\<lparr>workout_plans :=
                     filter (\<lambda>q. plan_id q \<noteq> plan_id plan) (workout_plans db) @ [plan]\<rparr>)
      else Inl OverflowError)"

definition get_workout_plan :: "database \<Rightarrow> string \<Rightarrow> WorkoutPlan option" where
  "get_workout_plan db pid = find (\<lambda>q. plan_id q = pid) (workout_plans db)"

text \<open>
  \<^verbatim>\<open>get_week_logs\<close>: the logs of the user joined with the plans on \<^verbatim>\<open>plan_id\<close>, kept
  when the plan's week number is the requested one. The query raises when the week
  number cannot be bound.
\<close>

definition get_week_logs :: "database \<Rightarrow> string \<Rightarrow> int \<Rightarrow> exn + WorkoutLog list" where
  "get_week_logs db uid wk =
     (if sqlite_int wk
      then Inr (filter (\<lambda>l. wl_user_id l = uid \<and>
                            (case get_workout_plan db (wl_plan_id l) of
                               None \<Rightarrow> False
                             | Some wp \<Rightarrow> week_number wp = wk))
                       (workout_logs db))
      else Inl OverflowError)"

section \<open>Plan lookup (WorkoutEngine.get\_plan)\<close>

text \<open>
  \<^verbatim>\<open>
  plan = await self.db.get_workout_plan(plan_id)
  if plan and plan.user_id == user_id:
      return plan
  return None
  \<close>
  An engine operation returns its result together with the repository as the
  operation leaves it.
\<close>

definition get_plan :: "database \<Rightarrow> string \<Rightarrow> string \<Rightarrow> WorkoutPlan option \<times> database" where
  "get_plan db pid uid =
     (case get_workout_plan db pid of
        None \<Rightarrow> (None, db)
      | Some plan \<Rightarrow> if wp_user_id plan = uid then (Some plan, db) else (None, db))"

section \<open>What the engine takes from outside\<close>

text \<open>
  The engine calls code that is not part of the repository: the generative
  model, \<^verbatim>\<open>json.loads\<close>, pydantic's \<^verbatim>\<open>DayPlan.model_validate\<close>, \<^verbatim>\<open>uuid.uuid4\<close>, and
  Python's rendering of values into text (\<^verbatim>\<open>str(e)\<close> of an exception, an int, an
  enum member or a float inside an f-string). Each is a field of \<open>env\<close>, and every
  theorem holds for every \<open>env\<close>.
  \<^item> \<open>ainvoke\<close> is what the one call \<^verbatim>\<open>await self.llm.ainvoke(...)\<close> of an operation
    does: it raises an exception of class \<^verbatim>\<open>Exception\<close> (\<open>Inl\<close>) or returns the text
    \<^verbatim>\<open>response.content\<close> (\<open>Inr\<close>). No engine operation calls the model twice.
    Cancellation of the coroutine during the call is not modelled.
  \<^item> \<open>uuid4 env k\<close> is the text of the \<open>k\<close>-th identifier drawn during the operation.
  \<^item> \<open>DayPlan_model_validate\<close> returns \<open>None\<close> where pydantic raises.
\<close>

record env =
  ainvoke :: "exn + string"
  json_loads :: "string \<Rightarrow> exn + pyval"
  DayPlan_model_validate :: "pyval \<Rightarrow> DayPlan option"
  uuid4 :: "nat \<Rightarrow> string"
  str_exn :: "exn \<Rightarrow> string"
  str_int :: "int \<Rightarrow> string"
  format_day :: "WorkoutDay \<Rightarrow> string"
  format_level :: "ExperienceLevel \<Rightarrow> string"
  format_reasoning :: "WeeklyMetrics \<Rightarrow> string"

section \<open>Python primitives the engine uses\<close>

text \<open>Truth value of an object in a condition (\<^verbatim>\<open>if x:\<close>, \<^verbatim>\<open>not x\<close>).\<close>

fun truthy :: "pyval \<Rightarrow> bool" where
  "truthy PNone = False"
| "truthy (PBool b) = b"
| "truthy (PInt i) = (i \<noteq> 0)"
| "truthy (PFloat r) = (r \<noteq> 0)"
| "truthy (PStr s) = (s \<noteq> [])"
| "truthy (PList xs) = (xs \<noteq> [])"
| "truthy (PDict kvs) = (kvs \<noteq> [])"

text \<open>\<^verbatim>\<open>for x in v\<close>: the items iterated, \<open>None\<close> where Python raises TypeError.\<close>

fun py_iter :: "pyval \<Rightarrow> pyval list option" where
  "py_iter (PList xs) = Some xs"
| "py_iter (PStr s) = Some (map (\<lambda>c. PStr [c]) s)"
| "py_iter (PDict kvs) = Some (map (\<lambda>kv. PStr (fst kv)) kvs)"
| "py_iter PNone = None"
| "py_iter (PBool b) = None"
| "py_iter (PInt i) = None"
| "py_iter (PFloat r) = None"

text \<open>\<^verbatim>\<open>v[key]\<close> and \<^verbatim>\<open>v.get(key, default)\<close> for a string key.\<close>

fun py_getitem :: "pyval \<Rightarrow> string \<Rightarrow> exn + pyval" where
  "py_getitem (PDict kvs) k = (case map_of kvs k of None \<Rightarrow> Inl KeyError | Some v \<Rightarrow> Inr v)"
| "py_getitem PNone k = Inl TypeError"
| "py_getitem (PBool b) k = Inl TypeError"
| "py_getitem (PInt i) k = Inl TypeError"
| "py_getitem (PFloat r) k = Inl TypeError"
| "py_getitem (PStr s) k = Inl TypeError"
| "py_getitem (PList xs) k = Inl TypeError"

fun py_get :: "pyval \<Rightarrow> string \<Rightarrow> pyval \<Rightarrow> exn + pyval" where
  "py_get (PDict kvs) k d = Inr (case map_of kvs k of None \<Rightarrow> d | Some v \<Rightarrow> v)"
| "py_get PNone k d = Inl AttributeError"
| "py_get (PBool b) k d = Inl AttributeError"
| "py_get (PInt i) k d = Inl AttributeError"
| "py_get (PFloat r) k d = Inl AttributeError"
| "py_get (PStr s) k d = Inl AttributeError"
| "py_get (PList xs) k d = Inl AttributeError"

text \<open>
  \<^verbatim>\<open>s.find(c)\<close> and \<^verbatim>\<open>s.rfind(c)\<close> for a one-character \<open>c\<close>: the first and the last
  index of \<open>c\<close>, or \<open>-1\<close>. A string is the list of its characters.
\<close>

fun find_char :: "char \<Rightarrow> string \<Rightarrow> int" where
  "find_char c [] = - 1"
| "find_char c (x # xs) =
     (if x = c then 0 else (let r = find_char c xs in if r = - 1 then - 1 else r + 1))"

definition rfind_char :: "char \<Rightarrow> string \<Rightarrow> int" where
  "rfind_char c s =
     (let r = find_char c (rev s) in if r = - 1 then - 1 else int (length s) - 1 - r)"

text \<open>
  The slice \<^verbatim>\<open>s[i:j]\<close>: a negative index counts from the end, and both are clamped
  to the string.
\<close>

definition py_slice :: "'a list \<Rightarrow> int \<Rightarrow> int \<Rightarrow> 'a list" where
  "py_slice xs i j =
     (let n = int (length xs);
          a = (if i < 0 then max 0 (n + i) else min i n);
          b = (if j < 0 then max 0 (n + j) else min j n)
      in take (nat (b - a)) (drop (nat a) xs))"

text \<open>\<^verbatim>\<open>sep.join(xs)\<close> on a list of strings.\<close>

fun py_join :: "string \<Rightarrow> string list \<Rightarrow> string" where
  "py_join sep [] = []"
| "py_join sep [x] = x"
| "py_join sep (x # y # ys) = x @ sep @ py_join sep (y # ys)"

text \<open>
  pydantic's validation of the arguments of the \<^verbatim>\<open>WorkoutPlan\<close> constructor that come
  from a model payload: \<^verbatim>\<open>days: List[DayPlan]\<close> takes a list whose items all validate,
  \<^verbatim>\<open>adaptation_rationale: Optional[str]\<close> takes a string or \<^verbatim>\<open>None\<close>.
\<close>

definition validate_days_field :: "env \<Rightarrow> pyval \<Rightarrow> DayPlan list option" where
  "validate_days_field env v =
     (case v of PList xs \<Rightarrow> those (map (DayPlan_model_validate env) xs) | _ \<Rightarrow> None)"

definition validate_rationale_field :: "pyval \<Rightarrow> string option option" where
  "validate_rationale_field v =
     (case v of PStr s \<Rightarrow> Some (Some s) | PNone \<Rightarrow> Some None | _ \<Rightarrow> None)"

text \<open>
  \<^verbatim>\<open>adherence_rate: float = Field(ge=0.0, le=1.0)\<close> is the one constraint of
  \<^verbatim>\<open>WeeklyMetrics\<close> that the values the engine passes can violate.
\<close>

definition WeeklyMetrics_validate :: "WeeklyMetrics \<Rightarrow> exn + WeeklyMetrics" where
  "WeeklyMetrics_validate m =
     (if 0 \<le> adherence_rate m \<and> adherence_rate m \<le> 1 then Inr m else Inl ValidationError)"

section \<open>Plan Validator/Repairer\<close>

text \<open>
  \<^verbatim>\<open>_validate_plan_structure(plan, profile)\<close>. The \<^verbatim>\<open>for\<close> loop is
  \<open>validate_days_loop\<close>, with the list \<^verbatim>\<open>errors\<close> as its accumulator. The profile is the
  state's optional one: the loop body reads \<^verbatim>\<open>profile.schedule\<close> and raises
  AttributeError on \<^verbatim>\<open>None\<close>. \<open>format_day\<close> is the text the f-string gives for
  \<^verbatim>\<open>{day.day}\<close>, a member of a \<^verbatim>\<open>str\<close>-mixin enum (its value or its qualified name,
  depending on the Python version).
\<close>

fun validate_days_loop ::
  "env \<Rightarrow> UserProfile option \<Rightarrow> DayPlan list \<Rightarrow> string list \<Rightarrow> exn + string list" where
  "validate_days_loop env profile [] errors = Inr errors"
| "validate_days_loop env profile (d # ds) errors =
     (case profile of
        None \<Rightarrow> Inl AttributeError
      | Some p \<Rightarrow>
          (let errors1 =
                 (if estimated_duration d > session_duration (schedule p) + 15
                  then errors @ [format_day env (day d) @ '' exceeds time limit'']
                  else errors);
               errors2 =
                 (if exercises d = []
                  then errors1 @ [format_day env (day d) @ '' has no exercises'']
                  else errors1)
           in validate_days_loop env profile ds errors2))"

definition validate_plan_structure ::
  "env \<Rightarrow> WorkoutPlan \<Rightarrow> UserProfile option \<Rightarrow> exn + string list" where
  "validate_plan_structure env plan profile =
     validate_days_loop env profile (days plan)
       (if days plan = [] then [''No workout days defined''] else [])"

text \<open>
  \<^verbatim>\<open>_fix_plan_issues(plan, errors, profile)\<close>: every day without exercises gets the
  placeholder; the plan is mutated in place and returned.
\<close>

definition placeholder_exercise :: PlannedExercise where
  "placeholder_exercise =
     \<lparr>exercise_id = ''push_ups'', exercise_name = ''Push-ups'', sets = 2, reps = ''5-10'',
      rest_seconds = 60, target_rpe = 6, pe_notes = None\<rparr>"

definition fix_day :: "DayPlan \<Rightarrow> DayPlan" where
  "fix_day d = (if exercises d = [] then d\<lparr>exercises := [placeholder_exercise]\<rparr> else d)"

definition fix_plan_issues ::
  "WorkoutPlan \<Rightarrow> string list \<Rightarrow> UserProfile option \<Rightarrow> WorkoutPlan" where
  "fix_plan_issues plan errors profile = plan\<lparr>days := map fix_day (days plan)\<rparr>"

section \<open>Plan Synthesizer\<close>

text \<open>
  The payload \<^verbatim>\<open>_parse_ai_response\<close> returns when it cannot use the response, and
  the one \<^verbatim>\<open>_parse_plan_response\<close> returns in the same case.
\<close>

definition fallback_exercise_payload :: "string \<Rightarrow> pyval" where
  "fallback_exercise_payload note =
     PDict [(''exercise_id'', PStr ''push_ups''), (''exercise_name'', PStr ''Push-ups''),
            (''sets'', PInt 3), (''reps'', PStr ''8-12''), (''rest_seconds'', PInt 60),
            (''target_rpe'', PInt 7), (''notes'', PStr note)]"

definition fallback_day_payload :: "string \<Rightarrow> pyval" where
  "fallback_day_payload note =
     PDict [(''day'', PStr ''monday''), (''focus'', PStr ''upper_body''),
            (''exercises'', PList [fallback_exercise_payload note]),
            (''estimated_duration'', PInt 30)]"

definition ai_response_fallback :: pyval where
  "ai_response_fallback =
     PDict [(''days'', PList [fallback_day_payload ''AI generation failed, using fallback'']),
            (''rationale'', PStr ''Fallback plan due to AI parsing error'')]"

definition plan_response_fallback :: pyval where
  "plan_response_fallback = PDict [(''days'', PList [fallback_day_payload ''Focus on form''])]"

text \<open>
  \<^verbatim>\<open>_parse_ai_response(response)\<close>. Everything raised inside its \<^verbatim>\<open>try\<close> is caught and
  answered with the fallback payload: no brace found, \<^verbatim>\<open>json.loads\<close> raising, a missing
  or falsy \<^verbatim>\<open>"days"\<close>. When \<^verbatim>\<open>data\<close> is not a dict, either \<^verbatim>\<open>"days" not in data\<close> holds or
  raises, or \<^verbatim>\<open>data["days"]\<close> raises TypeError, so the fallback is returned as well.
\<close>

definition parse_ai_response :: "env \<Rightarrow> string \<Rightarrow> pyval" where
  "parse_ai_response env response =
     (let start = find_char (CHR ''{'') response;
          end' = rfind_char (CHR ''}'') response + 1
      in if start = - 1 \<or> end' = 0 then ai_response_fallback
         else (case json_loads env (py_slice response start end') of
                 Inl e \<Rightarrow> ai_response_fallback
               | Inr data \<Rightarrow>
                   (case data of
                      PDict kvs \<Rightarrow>
                        (case map_of kvs ''days'' of
                           None \<Rightarrow> ai_response_fallback
                         | Some dv \<Rightarrow> if truthy dv then data else ai_response_fallback)
                    | _ \<Rightarrow> ai_response_fallback)))"

text \<open>
  \<^verbatim>\<open>_parse_plan_response(response)\<close>: no test of \<^verbatim>\<open>start\<close>, a bare \<^verbatim>\<open>except\<close>, and the
  decoded value returned as it is.
\<close>

definition parse_plan_response :: "env \<Rightarrow> string \<Rightarrow> pyval" where
  "parse_plan_response env response =
     (let start = find_char (CHR ''{'') response;
          end' = rfind_char (CHR ''}'') response + 1
      in case json_loads env (py_slice response start end') of
           Inl e \<Rightarrow> plan_response_fallback
         | Inr data \<Rightarrow> data)"




text \<open>The five days of \<^verbatim>\<open>_create_simple_plan(profile, week_number)\<close>, in its order.\<close>

definition simple_monday :: "UserProfile \<Rightarrow> DayPlan" where
  "simple_monday profile =
     \<lparr>day = monday, focus = ''upper_body'',
      exercises =
        [\<lparr>exercise_id = ''push_ups'', exercise_name = ''Push-ups'', sets = 3, reps = ''8-15'',
          rest_seconds = 60, target_rpe = 7, pe_notes = Some ''Modify on knees if needed''\<rparr>,
         \<lparr>exercise_id = ''dumbbell_rows'',
          exercise_name = (if ''dumbbells'' \<in> set (equipment profile)
                           then ''Dumbbell Rows'' else ''Resistance Band Rows''),
          sets = 3, reps = ''10-12'', rest_seconds = 90, target_rpe = 7,
          pe_notes = Some ''Keep back straight, squeeze shoulder blades''\<rparr>,
         \<lparr>exercise_id = ''planks'', exercise_name = ''Plank Hold'', sets = 3,
          reps = ''30-60 seconds'', rest_seconds = 60, target_rpe = 6,
          pe_notes = Some ''Keep straight body line''\<rparr>],
      estimated_duration = 40\<rparr>"

definition simple_tuesday :: DayPlan where
  "simple_tuesday =
     \<lparr>day = tuesday, focus = ''lower_body'',
      exercises =
        [\<lparr>exercise_id = ''squats'', exercise_name = ''Bodyweight Squats'', sets = 3,
          reps = ''12-20'', rest_seconds = 60, target_rpe = 7,
          pe_notes = Some ''Full depth, weight in heels''\<rparr>,
         \<lparr>exercise_id = ''lunges'', exercise_name = ''Forward Lunges'', sets = 3,
          reps = ''10 each leg'', rest_seconds = 60, target_rpe = 7,
          pe_notes = Some ''Keep front knee over ankle''\<rparr>],
      estimated_duration = 35\<rparr>"

definition simple_wednesday :: DayPlan where
  "simple_wednesday =
     \<lparr>day = wednesday, focus = ''cardio'',
      exercises =
        [\<lparr>exercise_id = ''jumping_jacks'', exercise_name = ''Jumping Jacks'', sets = 4,
          reps = ''30 seconds'', rest_seconds = 30, target_rpe = 8,
          pe_notes = Some ''High intensity intervals''\<rparr>,
         \<lparr>exercise_id = ''mountain_climbers'', exercise_name = ''Mountain Climbers'', sets = 3,
          reps = ''20 seconds'', rest_seconds = 40, target_rpe = 7,
          pe_notes = Some ''Keep hips level''\<rparr>],
      estimated_duration = 25\<rparr>"

definition simple_thursday :: DayPlan where
  "simple_thursday =
     \<lparr>day = thursday, focus = ''upper_body'',
      exercises =
        [\<lparr>exercise_id = ''push_ups'', exercise_name = ''Push-ups (Different Variation)'',
          sets = 3, reps = ''10-18'', rest_seconds = 60, target_rpe = 8,
          pe_notes = Some ''Try diamond or wide variations''\<rparr>,
         \<lparr>exercise_id = ''tricep_dips'', exercise_name = ''Tricep Dips'', sets = 3,
          reps = ''8-12'', rest_seconds = 60, target_rpe = 7,
          pe_notes = Some ''Use chair or bench''\<rparr>],
      estimated_duration = 30\<rparr>"

definition simple_friday :: DayPlan where
  "simple_friday =
     \<lparr>day = friday, focus = ''full_body'',
      exercises =
        [\<lparr>exercise_id = ''burpees'', exercise_name = ''Modified Burpees'', sets = 3,
          reps = ''5-10'', rest_seconds = 90, target_rpe = 8,
          pe_notes = Some ''Step back instead of jumping if needed''\<rparr>,
         \<lparr>exercise_id = ''squats'', exercise_name = ''Bodyweight Squats'', sets = 2,
          reps = ''15'', rest_seconds = 45, target_rpe = 6, pe_notes = Some ''Focus on form''\<rparr>,
         \<lparr>exercise_id = ''push_ups'', exercise_name = ''Push-ups'', sets = 2, reps = ''8-12'',
          rest_seconds = 45, target_rpe = 6, pe_notes = Some ''End the week strong!''\<rparr>],
      estimated_duration = 35\<rparr>"

definition create_simple_plan :: "env \<Rightarrow> UserProfile \<Rightarrow> int \<Rightarrow> nat \<Rightarrow> WorkoutPlan" where
  "create_simple_plan env profile wk k =
     \<lparr>plan_id = uuid4 env k, wp_user_id = user_id profile, week_number = wk,
      days = [simple_monday profile, simple_tuesday, simple_wednesday, simple_thursday,
              simple_friday],
      adaptation_rationale =
        Some (''Week '' @ str_int env wk @ '' plan customized for ''
              @ format_level env (experience_level profile)
              @ '' level with available equipment: ''
              @ py_join '', '' (equipment profile))\<rparr>"

text \<open>
  \<^verbatim>\<open>_create_fallback_plan(profile, week_number)\<close>, called with the state's optional
  profile: \<^verbatim>\<open>profile.user_id\<close> raises AttributeError on \<^verbatim>\<open>None\<close>, after \<^verbatim>\<open>uuid4()\<close>.
\<close>

definition create_fallback_plan ::
  "env \<Rightarrow> UserProfile option \<Rightarrow> int \<Rightarrow> nat \<Rightarrow> exn + WorkoutPlan" where
  "create_fallback_plan env profile wk k =
     (case profile of
        None \<Rightarrow> Inl AttributeError
      | Some p \<Rightarrow>
          Inr \<lparr>plan_id = uuid4 env k, wp_user_id = user_id p, week_number = wk,
               days =
                 [\<lparr>day = monday, focus = ''full_body'',
                   exercises =
                     [\<lparr>exercise_id = ''push_ups'', exercise_name = ''Push-ups'', sets = 3,
                       reps = ''8-12'', rest_seconds = 60, target_rpe = 7, pe_notes = None\<rparr>],
                   estimated_duration = 30\<rparr>],
               adaptation_rationale = Some ''Fallback plan due to AI generation issue''\<rparr>)"


section \<open>Workflow stages\<close>

text \<open>
  Each stage is \<^verbatim>\<open>try: ... except Exception as e: state.error_context = f"...{str(e)}"\<close>
  followed by \<^verbatim>\<open>return state\<close>. A stage returns \<open>Inr\<close> of the state it returns and \<open>Inl\<close>
  of an exception that leaves it. \<open>note_error\<close> is the assignment in the handler.
\<close>

definition note_error :: "env \<Rightarrow> string \<Rightarrow> exn \<Rightarrow> WorkoutState \<Rightarrow> WorkoutState" where
  "note_error env stage e s = s\<lparr>error_context := Some (stage @ str_exn env e)\<rparr>"

text \<open>\<^verbatim>\<open>_profile_intake_node\<close>: \<^verbatim>\<open>state.user_profile.user_id\<close> raises on an absent profile.\<close>

definition profile_intake_node :: "env \<Rightarrow> database \<Rightarrow> WorkoutState \<Rightarrow> exn + WorkoutState" where
  "profile_intake_node env db s =
     (case user_profile s of
        None \<Rightarrow> Inr (note_error env ''Profile intake error: '' AttributeError s)
      | Some given \<Rightarrow>
          (case get_user_profile db (user_id given) of
             Some profile \<Rightarrow>
               Inr (s\<lparr>user_profile := Some profile, workflow_stage := ''profile_complete''\<rparr>)
           | None \<Rightarrow> Inr (s\<lparr>error_context := Some ''Profile not found''\<rparr>)))"

text \<open>
  \<^verbatim>\<open>_plan_generation_node\<close>. \<open>plan_generation_try\<close> is the body of its \<^verbatim>\<open>try\<close> up to the
  construction of the plan, with the number of identifiers drawn: the prompt builder
  reads \<^verbatim>\<open>profile.experience_level\<close> (AttributeError on \<^verbatim>\<open>None\<close>), the model is called, the
  response parsed, and \<^verbatim>\<open>WorkoutPlan(...)\<close> evaluates \<^verbatim>\<open>uuid4()\<close>, \<^verbatim>\<open>plan_data["days"]\<close> and
  \<^verbatim>\<open>plan_data.get("rationale", ...)\<close> before it validates them. The handler records the
  error and then calls \<^verbatim>\<open>_create_fallback_plan(state.user_profile, ...)\<close> outside any \<^verbatim>\<open>try\<close>.
\<close>

definition plan_generation_try :: "env \<Rightarrow> WorkoutState \<Rightarrow> (exn + WorkoutPlan) \<times> nat" where
  "plan_generation_try env s =
     (case user_profile s of
        None \<Rightarrow> (Inl AttributeError, 0)
      | Some profile \<Rightarrow>
          (case ainvoke env of
             Inl e \<Rightarrow> (Inl e, 0)
           | Inr content \<Rightarrow>
               (let plan_data = parse_plan_response env content in
                case py_getitem plan_data ''days'' of
                  Inl e \<Rightarrow> (Inl e, 1)
                | Inr dv \<Rightarrow>
                    (case py_get plan_data ''rationale'' (PStr ''Initial plan generation'') of
                       Inl e \<Rightarrow> (Inl e, 1)
                     | Inr rv \<Rightarrow>
                         (case validate_days_field env dv of
                            None \<Rightarrow> (Inl ValidationError, 1)
                          | Some ds \<Rightarrow>
                              (case validate_rationale_field rv of
                                 None \<Rightarrow> (Inl ValidationError, 1)
                               | Some r \<Rightarrow>
                                   (Inr \<lparr>plan_id = uuid4 env 0, wp_user_id = user_id profile,
                                         week_number = current_week s, days = ds,
                                         adaptation_rationale = r\<rparr>, 1)))))))"

definition plan_generation_node :: "env \<Rightarrow> WorkoutState \<Rightarrow> exn + WorkoutState" where
  "plan_generation_node env s =
     (case plan_generation_try env s of
        (Inr plan, k) \<Rightarrow> Inr (s\<lparr>current_plan := Some plan, workflow_stage := ''plan_generated''\<rparr>)
      | (Inl e, k) \<Rightarrow>
          (case create_fallback_plan env (user_profile s) (current_week s) k of
             Inl e' \<Rightarrow> Inl e'
           | Inr plan \<Rightarrow>
               Inr ((note_error env ''Plan generation error: '' e s)\<lparr>current_plan := Some plan\<rparr>)))"

text \<open>
  \<^verbatim>\<open>_plan_validation_node\<close>: validate, fix when the validator found anything (the
  fixed plan is assigned to the state before the save), save, advance the stage tag.
  \<^verbatim>\<open>plan.days\<close> raises on an absent plan; what the save raises is caught like the
  rest. The stage returns the state and the repository after it.
\<close>

definition plan_validation_node ::
  "env \<Rightarrow> database \<Rightarrow> WorkoutState \<Rightarrow> exn + (WorkoutState \<times> database)" where
  "plan_validation_node env db s =
     (case current_plan s of
        None \<Rightarrow> Inr (note_error env ''Plan validation error: '' AttributeError s, db)
      | Some plan \<Rightarrow>
          (case validate_plan_structure env plan (user_profile s) of
             Inl e \<Rightarrow> Inr (note_error env ''Plan validation error: '' e s, db)
           | Inr validation_errors \<Rightarrow>
               (let fixed = (if validation_errors \<noteq> []
                             then fix_plan_issues plan validation_errors (user_profile s)
                             else plan);
                    s1 = (if validation_errors \<noteq> [] then s\<lparr>current_plan := Some fixed\<rparr>
                          else s)
                in case save_workout_plan db fixed of
                     Inl e \<Rightarrow> Inr (note_error env ''Plan validation error: '' e s1, db)
                   | Inr db' \<Rightarrow> Inr (s1\<lparr>workflow_stage := ''plan_validated''\<rparr>, db'))))"

text \<open>
  \<^verbatim>\<open>_feedback_analysis_node\<close>: when the raw feedback is truthy the model is called and
  its answer decoded by \<^verbatim>\<open>json.loads\<close> into \<^verbatim>\<open>state.feedback_analysis["insights"]\<close>.
\<close>

definition feedback_analysis_node :: "env \<Rightarrow> WorkoutState \<Rightarrow> exn + WorkoutState" where
  "feedback_analysis_node env s =
     (let feedback_text = (case map_of (feedback_analysis s) ''raw_feedback'' of
                             None \<Rightarrow> PStr [] | Some v \<Rightarrow> v)
      in if truthy feedback_text
         then (case ainvoke env of
                 Inl e \<Rightarrow> Inr (note_error env ''Feedback analysis error: '' e s)
               | Inr content \<Rightarrow>
                   (case json_loads env content of
                      Inl e \<Rightarrow> Inr (note_error env ''Feedback analysis error: '' e s)
                    | Inr insights \<Rightarrow>
                        Inr (s\<lparr>feedback_analysis :=
                                 AList.update ''insights'' insights (feedback_analysis s),
                               workflow_stage := ''feedback_analyzed''\<rparr>)))
         else Inr (s\<lparr>workflow_stage := ''feedback_analyzed''\<rparr>))"

text \<open>
  \<^verbatim>\<open>_metrics_calculation_node\<close>. \<^verbatim>\<open>state.user_profile.user_id\<close> raises on an absent
  profile; the log query raises on a week number it cannot bind;
  \<^verbatim>\<open>completed_sessions / total_planned\<close> raises ZeroDivisionError on a plan with no days;
  \<^verbatim>\<open>WeeklyMetrics(...)\<close> validates the adherence rate.
\<close>

definition metrics_calculation_node ::
  "env \<Rightarrow> database \<Rightarrow> WorkoutState \<Rightarrow> exn + WorkoutState" where
  "metrics_calculation_node env db s =
     (case user_profile s of
        None \<Rightarrow> Inr (note_error env ''Metrics calculation error: '' AttributeError s)
      | Some profile \<Rightarrow>
          (let uid = user_id profile;
               wk = current_week s
           in case get_week_logs db uid wk of
                Inl e \<Rightarrow> Inr (note_error env ''Metrics calculation error: '' e s)
              | Inr week_logs \<Rightarrow>
           if week_logs \<noteq> []
              then (let total_planned = (case current_plan s of
                                           Some plan \<Rightarrow> int (length (days plan))
                                         | None \<Rightarrow> 5);
                        completed = int (length week_logs)
                    in if total_planned = 0
                       then Inr (note_error env ''Metrics calculation error: '' ZeroDivisionError s)
                       else (let adherence = real_of_int completed / real_of_int total_planned;
                                 avg_rpe = real_of_int (sum_list (map session_rpe week_logs))
                                           / real (length week_logs);
                                 progression =
                                   \<lparr>strength_gains = (avg_rpe < 8 \<and> adherence > 0.8),
                                    endurance_improvements = True,
                                    form_quality =
                                      (if avg_rpe < 7 then ''improving'' else ''stable'')\<rparr>
                             in case WeeklyMetrics_validate
                                       \<lparr>wm_user_id = uid, wm_week_number = wk,
                                        adherence_rate = adherence, average_rpe = avg_rpe,
                                        completed_sessions = completed,
                                        total_planned_sessions = total_planned,
                                        progression_indicators = progression,
                                        concerns = (if avg_rpe > 8.5 then [''high_fatigue'']
                                                    else [])\<rparr> of
                                  Inl e \<Rightarrow>
                                    Inr (note_error env ''Metrics calculation error: '' e s)
                                | Inr m \<Rightarrow>
                                    Inr (s\<lparr>metrics := Some m,
                                           workflow_stage := ''metrics_calculated''\<rparr>)))
              else Inr (s\<lparr>workflow_stage := ''metrics_calculated''\<rparr>)))"

text \<open>
  \<^verbatim>\<open>_build_adaptation_reasoning(metrics, feedback_insights)\<close>; \<open>format_reasoning\<close> is
  its f-string over the metrics.
\<close>

definition build_adaptation_reasoning :: "env \<Rightarrow> WeeklyMetrics option \<Rightarrow> pyval \<Rightarrow> string" where
  "build_adaptation_reasoning env m feedback_insights =
     (case m of None \<Rightarrow> ''No metrics available'' | Some wm \<Rightarrow> format_reasoning env wm)"

text \<open>
  \<^verbatim>\<open>_adaptation_decision_node\<close>. The four rules append to \<^verbatim>\<open>adaptations\<close> in the order of
  the source. \<^verbatim>\<open>feedback_insights.get(...)\<close> raises AttributeError when the stored insights
  are not a dict.
\<close>

definition adaptation_decision_node :: "env \<Rightarrow> WorkoutState \<Rightarrow> exn + WorkoutState" where
  "adaptation_decision_node env s =
     (let m = metrics s;
          feedback_insights = (case map_of (feedback_analysis s) ''insights'' of
                                 None \<Rightarrow> PDict [] | Some v \<Rightarrow> v);
          adaptations0 = [];
          adaptations1 = (if (case m of None \<Rightarrow> False | Some wm \<Rightarrow> adherence_rate wm < 0.6)
                          then adaptations0 @ [''reduce_volume''] else adaptations0);
          adaptations2 = (if (case m of None \<Rightarrow> False | Some wm \<Rightarrow> average_rpe wm > 8.5)
                          then adaptations1 @ [''deload_intensity''] else adaptations1)
      in case py_get feedback_insights ''pain_flags'' PNone of
           Inl e \<Rightarrow> Inr (note_error env ''Adaptation decision error: '' e s)
         | Inr pain \<Rightarrow>
             (let adaptations3 = (if truthy pain then adaptations2 @ [''exercise_substitution'']
                                  else adaptations2)
              in case py_get feedback_insights ''schedule_conflicts'' PNone of
                   Inl e \<Rightarrow> Inr (note_error env ''Adaptation decision error: '' e s)
                 | Inr conflicts \<Rightarrow>
                     (let adaptations4 = (if truthy conflicts
                                          then adaptations3 @ [''adjust_timing'']
                                          else adaptations3)
                      in Inr (s\<lparr>adaptation_context :=
                                   [(''adaptations'', PList (map PStr adaptations4)),
                                    (''reasoning'',
                                     PStr (build_adaptation_reasoning env m feedback_insights))],
                                 workflow_stage := ''adaptation_decided''\<rparr>))))"

text \<open>
  \<^verbatim>\<open>_rationale_generation_node\<close>. \<^verbatim>\<open>', '.join(adaptations)\<close> raises TypeError unless
  \<^verbatim>\<open>adaptations\<close> iterates over strings.
\<close>

definition joinable :: "pyval \<Rightarrow> bool" where
  "joinable v =
     (case py_iter v of
        None \<Rightarrow> False
      | Some xs \<Rightarrow> list_all (\<lambda>x. case x of PStr t \<Rightarrow> True | _ \<Rightarrow> False) xs)"

definition rationale_generation_node :: "env \<Rightarrow> WorkoutState \<Rightarrow> exn + WorkoutState" where
  "rationale_generation_node env s =
     (let adaptations = (case map_of (adaptation_context s) ''adaptations'' of
                           None \<Rightarrow> PList [] | Some v \<Rightarrow> v)
      in if truthy adaptations
         then (if joinable adaptations
               then (case ainvoke env of
                       Inl e \<Rightarrow> Inr (note_error env ''Rationale generation error: '' e s)
                     | Inr content \<Rightarrow>
                         Inr (s\<lparr>adaptation_context :=
                                  AList.update ''rationale'' (PStr content) (adaptation_context s),
                                workflow_stage := ''rationale_generated''\<rparr>))
               else Inr (note_error env ''Rationale generation error: '' TypeError s))
         else Inr (s\<lparr>adaptation_context :=
                        AList.update ''rationale''
                          (PStr ''Great work this week! Continuing with progressive overload.'')
                          (adaptation_context s),
                      workflow_stage := ''rationale_generated''\<rparr>))"

section \<open>The validator's findings as the specification lists them\<close>

text \<open>
  The specification's contract of the validator, written from its words and not from
  the loop: a "no days" finding when the day list is empty, then for each day a
  time-budget finding when its estimated duration exceeds the session duration plus
  15 minutes, and a "no exercises" finding when its exercise list is empty.
\<close>

definition spec_day_findings :: "env \<Rightarrow> UserProfile \<Rightarrow> DayPlan \<Rightarrow> string list" where
  "spec_day_findings env p d =
     (if session_duration (schedule p) + 15 < estimated_duration d
      then [format_day env (day d) @ '' exceeds time limit''] else [])
     @ (if exercises d = [] then [format_day env (day d) @ '' has no exercises''] else [])"

definition spec_findings :: "env \<Rightarrow> WorkoutPlan \<Rightarrow> UserProfile \<Rightarrow> string list" where
  "spec_findings env plan p =
     (if days plan = [] then [''No workout days defined''] else [])
     @ concat (map (spec_day_findings env p) (days plan))"

section \<open>Concrete inputs\<close>

text \<open>
  The inputs the theorems are instantiated at. \<open>WorkoutDay_value\<close> is the value of the
  enum member. \<open>DayPlan_of_payload\<close> reads a day payload whose fields have exactly the
  types \<^verbatim>\<open>models.py\<close> declares (with \<^verbatim>\<open>target_rpe\<close> in 1..10); pydantic also accepts
  payloads it has to coerce, which is why the engine above takes the validator from
  \<open>env\<close>. \<open>sample_env\<close> has a decoder that rejects every text: it is used with
  responses that hold no JSON object. Its renderings of exceptions, ints and metrics
  are stand-ins.
\<close>

definition WorkoutDay_value :: "WorkoutDay \<Rightarrow> string" where
  "WorkoutDay_value w =
     (case w of monday \<Rightarrow> ''monday'' | tuesday \<Rightarrow> ''tuesday'' | wednesday \<Rightarrow> ''wednesday''
      | thursday \<Rightarrow> ''thursday'' | friday \<Rightarrow> ''friday'')"

definition WorkoutDay_of_value :: "string \<Rightarrow> WorkoutDay option" where
  "WorkoutDay_of_value t =
     (if t = ''monday'' then Some monday
      else if t = ''tuesday'' then Some tuesday
      else if t = ''wednesday'' then Some wednesday
      else if t = ''thursday'' then Some thursday
      else if t = ''friday'' then Some friday
      else None)"

definition field_str :: "(string \<times> pyval) list \<Rightarrow> string \<Rightarrow> string option" where
  "field_str kvs k = (case map_of kvs k of Some (PStr t) \<Rightarrow> Some t | _ \<Rightarrow> None)"

definition field_int :: "(string \<times> pyval) list \<Rightarrow> string \<Rightarrow> int option" where
  "field_int kvs k = (case map_of kvs k of Some (PInt i) \<Rightarrow> Some i | _ \<Rightarrow> None)"

definition field_opt_str :: "(string \<times> pyval) list \<Rightarrow> string \<Rightarrow> string option option" where
  "field_opt_str kvs k =
     (case map_of kvs k of
        None \<Rightarrow> Some None
      | Some PNone \<Rightarrow> Some None
      | Some (PStr t) \<Rightarrow> Some (Some t)
      | _ \<Rightarrow> None)"

definition PlannedExercise_of_payload :: "pyval \<Rightarrow> PlannedExercise option" where
  "PlannedExercise_of_payload v =
     (case v of
        PDict kvs \<Rightarrow>
          (case field_str kvs ''exercise_id'' of None \<Rightarrow> None | Some i \<Rightarrow>
          (case field_str kvs ''exercise_name'' of None \<Rightarrow> None | Some n \<Rightarrow>
          (case field_int kvs ''sets'' of None \<Rightarrow> None | Some st \<Rightarrow>
          (case field_str kvs ''reps'' of None \<Rightarrow> None | Some r \<Rightarrow>
          (case field_int kvs ''rest_seconds'' of None \<Rightarrow> None | Some rs \<Rightarrow>
          (case field_int kvs ''target_rpe'' of None \<Rightarrow> None | Some t \<Rightarrow>
          (case field_opt_str kvs ''notes'' of None \<Rightarrow> None | Some nt \<Rightarrow>
             (if 1 \<le> t \<and> t \<le> 10
              then Some \<lparr>exercise_id = i, exercise_name = n, sets = st, reps = r,
                         rest_seconds = rs, target_rpe = t, pe_notes = nt\<rparr>
              else None))))))))
      | _ \<Rightarrow> None)"

definition DayPlan_of_payload :: "pyval \<Rightarrow> DayPlan option" where
  "DayPlan_of_payload v =
     (case v of
        PDict kvs \<Rightarrow>
          (case Option.bind (field_str kvs ''day'') WorkoutDay_of_value of None \<Rightarrow> None | Some w \<Rightarrow>
          (case field_str kvs ''focus'' of None \<Rightarrow> None | Some f \<Rightarrow>
          (case map_of kvs ''exercises'' of
             Some (PList xs) \<Rightarrow>
               (case those (map PlannedExercise_of_payload xs) of None \<Rightarrow> None | Some es \<Rightarrow>
               (case field_int kvs ''estimated_duration'' of None \<Rightarrow> None | Some dur \<Rightarrow>
                  Some \<lparr>day = w, focus = f, exercises = es, estimated_duration = dur\<rparr>))
           | _ \<Rightarrow> None)))
      | _ \<Rightarrow> None)"

definition sample_env :: "exn + string \<Rightarrow> env" where
  "sample_env outcome =
     \<lparr>ainvoke = outcome,
      json_loads = (\<lambda>t. Inl JSONDecodeError),
      DayPlan_model_validate = DayPlan_of_payload,
      uuid4 = (\<lambda>k. ''plan-'' @ replicate k (CHR ''i'')),
      str_exn = (\<lambda>e. case e of ValueError t \<Rightarrow> t | ExternalError t \<Rightarrow> t | _ \<Rightarrow> ''error''),
      str_int = (\<lambda>i. if i = 1 then ''1'' else ''n''),
      format_day = WorkoutDay_value,
      format_level = (\<lambda>l. case l of beginner \<Rightarrow> ''beginner'' | intermediate \<Rightarrow> ''intermediate''
                          | advanced \<Rightarrow> ''advanced''),
      format_reasoning = (\<lambda>m. ''metrics'')\<rparr>"




definition sample_profile :: UserProfile where
  "sample_profile =
     \<lparr>user_id = ''alice'', goals = [''strength''], experience_level = beginner,
      equipment = [''bodyweight''],
      schedule = \<lparr>days_per_week = 5, session_duration = 45, preferred_times = [''morning'']\<rparr>,
      constraints = \<lparr>injuries = [], limitations = []\<rparr>\<rparr>"

definition sample_plan :: WorkoutPlan where
  "sample_plan = create_simple_plan (sample_env (Inr [])) sample_profile 1 0"

definition sample_log :: "string \<Rightarrow> WorkoutDay \<Rightarrow> int \<Rightarrow> WorkoutLog" where
  "sample_log lid w r =
     \<lparr>log_id = lid, wl_user_id = ''alice'', wl_plan_id = ''plan-'', wl_day = w,
      wl_exercises = [], session_rpe = r, duration_minutes = 40, general_feedback = None\<rparr>"

definition five_logs :: "WorkoutLog list" where
  "five_logs =
     [sample_log ''l1'' monday 7, sample_log ''l2'' tuesday 6, sample_log ''l3'' wednesday 7,
      sample_log ''l4'' thursday 8, sample_log ''l5'' friday 6]"

definition six_logs :: "WorkoutLog list" where
  "six_logs = five_logs @ [sample_log ''l6'' friday 9]"

definition sample_db :: "WorkoutLog list \<Rightarrow> database" where
  "sample_db ls = \<lparr>users = [sample_profile], workout_plans = [sample_plan], workout_logs = ls\<rparr>"

definition sample_state :: WorkoutState where
  "sample_state =
     \<lparr>user_profile = Some sample_profile, current_week = 1, plan_history = [],
      current_plan = Some sample_plan, logs = [], feedback_analysis = [], metrics = None,
      adaptation_context = [], workflow_stage = ''plan_generation'', error_context = None\<rparr>"

definition tired_metrics :: WeeklyMetrics where
  "tired_metrics =
     \<lparr>wm_user_id = ''alice'', wm_week_number = 1, adherence_rate = 0.5, average_rpe = 9,
      completed_sessions = 2, total_planned_sessions = 4,
      progression_indicators =
        \<lparr>strength_gains = False, endurance_improvements = True, form_quality = ''stable''\<rparr>,
      concerns = [''high_fatigue'']\<rparr>"

definition sample_insights :: pyval where
  "sample_insights =
     PDict [(''sentiment'', PStr ''negative''), (''fatigue_indicators'', PList []),
            (''pain_flags'', PList [PStr ''knee'']), (''preferences'', PList []),
            (''schedule_conflicts'', PList [PStr ''friday''])]"

definition unfit_plan :: WorkoutPlan where
  "unfit_plan =
     sample_plan\<lparr>days := [\<lparr>day = monday, focus = ''upper_body'', exercises = [],
                             estimated_duration = 61\<rparr>,
                            simple_tuesday]\<rparr>"

section \<open>Theorems\<close>

subsection \<open>Helper facts about the repository\<close>


lemma find_None_key: "find (\<lambda>x. f x = k) xs = None \<longleftrightarrow> k \<notin> f ` set xs"
  by (induction xs) auto

lemma find_key_distinct:
  "distinct (map f xs) \<Longrightarrow> find (\<lambda>x. f x = k) xs = Some x \<longleftrightarrow> x \<in> set xs \<and> f x = k"
  by (induction xs) (auto simp: image_iff)

lemma sample_plan_fields:
  "plan_id sample_plan = ''plan-''" "wp_user_id sample_plan = ''alice''"
  "week_number sample_plan = 1" "length (days sample_plan) = 5"
  by (simp_all add: sample_plan_def create_simple_plan_def sample_env_def sample_profile_def)

text \<open>
  The write keeps the primary key of the plans table distinct, and the empty table
  has it distinct.
\<close>

lemma save_workout_plan_distinct:
  assumes "distinct (map plan_id (workout_plans db))"
    and "save_workout_plan db plan = Inr db'"
  shows "distinct (map plan_id (workout_plans db'))"
proof -
  from assms(2) have db': "db' = db\<lparr>workout_plans :=
      filter (\<lambda>q. plan_id q \<noteq> plan_id plan) (workout_plans db) @ [plan]\<rparr>"
    by (cases "sqlite_int (week_number plan)") (simp_all add: save_workout_plan_def)
  have "distinct (map plan_id (filter (\<lambda>q. plan_id q \<noteq> plan_id plan) (workout_plans db)))"
    using assms(1) by (rule distinct_map_filter)
  then show ?thesis
    by (auto simp: db')
qed

subsection \<open>Plan lookup\<close>

text \<open>
  C9. In a plans table whose ids are distinct (the primary key), for every plan id and
  user id \<open>get_plan\<close> returns a plan exactly when that plan is a row of the table with
  that id and its owning user id is the requesting user id; it returns absent exactly
  when the table has no row with that id and that owner, so for any other user id the
  stored plan is not returned; and the lookup leaves the repository as it was.
\<close>

theorem get_plan_owner_checked:
  assumes "distinct (map plan_id (workout_plans db))"
  shows "(fst (get_plan db pid uid) = Some plan
            \<longleftrightarrow> plan \<in> set (workout_plans db) \<and> plan_id plan = pid \<and> wp_user_id plan = uid)
         \<and> (fst (get_plan db pid uid) = None
            \<longleftrightarrow> \<not> (\<exists>q \<in> set (workout_plans db). plan_id q = pid \<and> wp_user_id q = uid))
         \<and> snd (get_plan db pid uid) = db"
proof (cases "get_workout_plan db pid")
  case None
  then have "pid \<notin> plan_id ` set (workout_plans db)"
    by (simp add: get_workout_plan_def find_None_key)
  with None show ?thesis
    by (auto simp: get_plan_def)
next
  case (Some stored)
  then have f: "find (\<lambda>q. plan_id q = pid) (workout_plans db) = Some stored"
    by (simp add: get_workout_plan_def)
  have key: "find (\<lambda>q. plan_id q = pid) (workout_plans db) = Some q
               \<longleftrightarrow> q \<in> set (workout_plans db) \<and> plan_id q = pid" for q
    using assms by (rule find_key_distinct)
  have row: "q \<in> set (workout_plans db) \<and> plan_id q = pid \<longleftrightarrow> q = stored" for q
    using key [of q] f by auto
  have a: "fst (get_plan db pid uid) = (if wp_user_id stored = uid then Some stored else None)"
    and c: "snd (get_plan db pid uid) = db"
    by (simp_all add: get_plan_def Some)
  have one: "fst (get_plan db pid uid) = Some plan
            \<longleftrightarrow> plan \<in> set (workout_plans db) \<and> plan_id plan = pid \<and> wp_user_id plan = uid"
    unfolding a using row [of plan] by auto
  have st: "stored \<in> set (workout_plans db)" "plan_id stored = pid"
    using row [of stored] by simp_all
  have only: "q = stored" if "q \<in> set (workout_plans db)" "plan_id q = pid" for q
    using row [of q] that by simp
  have two: "fst (get_plan db pid uid) = None
            \<longleftrightarrow> \<not> (\<exists>q \<in> set (workout_plans db). plan_id q = pid \<and> wp_user_id q = uid)"
  proof (cases "wp_user_id stored = uid")
    case True
    with st have "\<exists>q \<in> set (workout_plans db). plan_id q = pid \<and> wp_user_id q = uid"
      by blast
    with True show ?thesis by (simp add: a)
  next
    case False
    with only have "\<not> (\<exists>q \<in> set (workout_plans db). plan_id q = pid \<and> wp_user_id q = uid)"
      by blast
    with False show ?thesis by (simp add: a)
  qed
  from one two c show ?thesis by blast
qed

theorem get_plan_owner_checked_witness:
  "fst (get_plan (sample_db []) ''plan-'' ''alice'') = Some sample_plan
   \<and> fst (get_plan (sample_db []) ''plan-'' ''bob'') = None
   \<and> fst (get_plan (sample_db []) ''other'' ''alice'') = None
   \<and> snd (get_plan (sample_db []) ''plan-'' ''bob'') = sample_db []
   \<and> workout_plans (sample_db []) = [sample_plan]"
proof -
  have d: "distinct (map plan_id (workout_plans (sample_db [])))"
    and t: "workout_plans (sample_db []) = [sample_plan]"
    by (simp_all add: sample_db_def)
  show ?thesis
    using get_plan_owner_checked [OF d, of "''plan-''" "''alice''" sample_plan]
          get_plan_owner_checked [OF d, of "''plan-''" "''bob''" sample_plan]
          get_plan_owner_checked [OF d, of "''other''" "''alice''" sample_plan]
    by (simp add: t sample_plan_fields)
qed
subsection \<open>Validator\<close>

lemma validate_days_loop_acc:
  "validate_days_loop env (Some p) ds acc = Inr (acc @ concat (map (spec_day_findings env p) ds))"
  by (induction ds arbitrary: acc) (simp_all add: spec_day_findings_def Let_def)

lemma time_finding_not_no_days:
  "t @ '' exceeds time limit'' \<noteq> ''No workout days defined''"
proof
  assume "t @ '' exceeds time limit'' = ''No workout days defined''"
  then have "last (t @ '' exceeds time limit'') = last ''No workout days defined''" by simp
  then show False by simp
qed

lemma no_exercises_finding_not_no_days:
  "t @ '' has no exercises'' \<noteq> ''No workout days defined''"
proof
  assume "t @ '' has no exercises'' = ''No workout days defined''"
  then have "last (t @ '' has no exercises'') = last ''No workout days defined''" by simp
  then show False by simp
qed

lemma time_finding_not_no_exercises:
  "t @ '' exceeds time limit'' \<noteq> u @ '' has no exercises''"
proof
  assume "t @ '' exceeds time limit'' = u @ '' has no exercises''"
  then have "last (t @ '' exceeds time limit'') = last (u @ '' has no exercises'')" by simp
  then show False by simp
qed

lemma set_spec_findings:
  "set (spec_findings env plan p) =
     (if days plan = [] then {''No workout days defined''} else {})
     \<union> {format_day env (day d) @ '' exceeds time limit'' | d.
          d \<in> set (days plan) \<and> session_duration (schedule p) + 15 < estimated_duration d}
     \<union> {format_day env (day d) @ '' has no exercises'' | d.
          d \<in> set (days plan) \<and> exercises d = []}"
  by (auto simp: spec_findings_def spec_day_findings_def split: if_splits)

text \<open>
  C4. For every plan and profile the validator returns exactly the findings the
  specification lists, in the order of the days: "No workout days defined" is among
  them exactly when the day list is empty; the time-budget finding of a weekday tag
  exactly when some day with that tag has an estimated duration above the profile's
  session duration plus 15; the "no exercises" finding of a weekday tag exactly when
  some day with that tag has no exercises; and every finding is one of these three.
\<close>

theorem validate_plan_structure_exact:
  "validate_plan_structure env plan (Some p) = Inr (spec_findings env plan p)
   \<and> (''No workout days defined'' \<in> set (spec_findings env plan p) \<longleftrightarrow> days plan = [])
   \<and> (\<forall>w. format_day env w @ '' exceeds time limit'' \<in> set (spec_findings env plan p)
          \<longleftrightarrow> (\<exists>d \<in> set (days plan). format_day env (day d) = format_day env w
                \<and> session_duration (schedule p) + 15 < estimated_duration d))
   \<and> (\<forall>w. format_day env w @ '' has no exercises'' \<in> set (spec_findings env plan p)
          \<longleftrightarrow> (\<exists>d \<in> set (days plan). format_day env (day d) = format_day env w
                \<and> exercises d = []))
   \<and> (\<forall>e \<in> set (spec_findings env plan p).
          e = ''No workout days defined''
          \<or> (\<exists>d \<in> set (days plan). e = format_day env (day d) @ '' exceeds time limit'')
          \<or> (\<exists>d \<in> set (days plan). e = format_day env (day d) @ '' has no exercises''))"
proof (intro conjI)
  show "validate_plan_structure env plan (Some p) = Inr (spec_findings env plan p)"
    by (simp add: validate_plan_structure_def validate_days_loop_acc spec_findings_def)
  show "''No workout days defined'' \<in> set (spec_findings env plan p) \<longleftrightarrow> days plan = []"
    using time_finding_not_no_days no_exercises_finding_not_no_days
    by (auto simp: set_spec_findings split: if_splits)
  show "\<forall>w. format_day env w @ '' exceeds time limit'' \<in> set (spec_findings env plan p)
          \<longleftrightarrow> (\<exists>d \<in> set (days plan). format_day env (day d) = format_day env w
                \<and> session_duration (schedule p) + 15 < estimated_duration d)"
    using time_finding_not_no_days time_finding_not_no_exercises
    by (auto simp: set_spec_findings split: if_splits) metis+
  show "\<forall>w. format_day env w @ '' has no exercises'' \<in> set (spec_findings env plan p)
          \<longleftrightarrow> (\<exists>d \<in> set (days plan). format_day env (day d) = format_day env w
                \<and> exercises d = [])"
    using no_exercises_finding_not_no_days time_finding_not_no_exercises
    by (auto simp: set_spec_findings split: if_splits) metis+
  show "\<forall>e \<in> set (spec_findings env plan p).
          e = ''No workout days defined''
          \<or> (\<exists>d \<in> set (days plan). e = format_day env (day d) @ '' exceeds time limit'')
          \<or> (\<exists>d \<in> set (days plan). e = format_day env (day d) @ '' has no exercises'')"
    by (auto simp: set_spec_findings split: if_splits)
qed

theorem validate_plan_structure_exact_witness:
  "validate_plan_structure (sample_env (Inr [])) unfit_plan (Some sample_profile)
     = Inr [''monday exceeds time limit'', ''monday has no exercises'']
   \<and> validate_plan_structure (sample_env (Inr [])) (sample_plan\<lparr>days := []\<rparr>) (Some sample_profile)
     = Inr [''No workout days defined'']
   \<and> validate_plan_structure (sample_env (Inr []))
      (sample_plan\<lparr>days := [\<lparr>day = friday, focus = ''x'', exercises = [placeholder_exercise],
                              estimated_duration = 60\<rparr>]\<rparr>)
      (Some sample_profile)
     = Inr []"
  using validate_plan_structure_exact [of "sample_env (Inr [])" unfit_plan sample_profile]
        validate_plan_structure_exact [of "sample_env (Inr [])" "sample_plan\<lparr>days := []\<rparr>"
          sample_profile]
        validate_plan_structure_exact [of "sample_env (Inr [])"
          "sample_plan\<lparr>days := [\<lparr>day = friday, focus = ''x'', exercises = [placeholder_exercise],
                              estimated_duration = 60\<rparr>]\<rparr>" sample_profile]
  by (simp add: spec_findings_def spec_day_findings_def sample_env_def sample_profile_def
        simple_tuesday_def WorkoutDay_value_def unfit_plan_def)

subsection \<open>Repair\<close>

lemma fix_day_idem: "fix_day (fix_day d) = fix_day d"
  by (simp add: fix_day_def)

lemma fix_plan_issues_idem:
  "fix_plan_issues (fix_plan_issues plan e1 pr1) e2 pr2 = fix_plan_issues plan e1 pr1"
  by (simp add: fix_plan_issues_def fix_day_idem)

lemma save_workout_plan_idem:
  "save_workout_plan db plan = Inr db' \<Longrightarrow> save_workout_plan db' plan = Inr db'"
  by (auto simp: save_workout_plan_def split: if_splits)

lemma save_workout_plan_fails:
  "save_workout_plan db plan = Inl e \<Longrightarrow> save_workout_plan db1 plan = Inl e"
  by (auto simp: save_workout_plan_def split: if_splits)

lemma save_fixed_plan:
  "save_workout_plan db (fix_plan_issues plan es pr) = Inl e \<longleftrightarrow> save_workout_plan db plan = Inl e"
  by (simp add: save_workout_plan_def fix_plan_issues_def)

lemma current_plan_same: "current_plan s = v \<Longrightarrow> s\<lparr>current_plan := v\<rparr> = s"
  by auto

lemma validate_days_loop_fix:
  "validate_days_loop env pr (map fix_day ds) acc = Inl e \<longleftrightarrow> validate_days_loop env pr ds acc = Inl e"
proof (cases pr)
  case None
  then show ?thesis by (cases ds) auto
next
  case (Some p)
  then show ?thesis by (simp add: validate_days_loop_acc)
qed

lemma validate_fix_raises:
  "validate_plan_structure env (fix_plan_issues plan es pr') pr = Inl e
     \<longleftrightarrow> validate_plan_structure env plan pr = Inl e"
  by (simp add: validate_plan_structure_def fix_plan_issues_def validate_days_loop_fix)

lemma plan_validation_node_unfold:
  assumes "current_plan s = Some plan"
    and "validate_plan_structure env plan (user_profile s) = Inr errs"
    and "fixed = (if errs \<noteq> [] then fix_plan_issues plan errs (user_profile s) else plan)"
  shows "plan_validation_node env db s
           = (case save_workout_plan db fixed of
                Inl e \<Rightarrow>
                  Inr (note_error env ''Plan validation error: '' e (s\<lparr>current_plan := Some fixed\<rparr>),
                       db)
              | Inr db' \<Rightarrow>
                  Inr (s\<lparr>current_plan := Some fixed, workflow_stage := ''plan_validated''\<rparr>, db'))"
proof (cases "errs = []")
  case True
  with assms(3) have fx: "fixed = plan" by simp
  have same: "s\<lparr>current_plan := Some plan\<rparr> = s"
    using assms(1) by (rule current_plan_same)
  have same2: "s\<lparr>current_plan := Some plan, workflow_stage := w\<rparr> = s\<lparr>workflow_stage := w\<rparr>" for w
    using same by simp
  show ?thesis
    unfolding fx
    by (cases "save_workout_plan db plan")
       (simp_all add: plan_validation_node_def assms(1,2) True same same2 Let_def)
next
  case False
  with assms(3) have fx: "fix_plan_issues plan errs (user_profile s) = fixed" by simp
  show ?thesis
    by (simp add: plan_validation_node_def assms(1,2) False fx Let_def)
qed

lemma plan_validation_node_idem:
  assumes "plan_validation_node env db s = Inr (s', db')"
  shows "plan_validation_node env db' s' = Inr (s', db')"
proof (cases "current_plan s")
  case None
  with assms show ?thesis
    by (auto simp: plan_validation_node_def note_error_def)
next
  case (Some plan)
  show ?thesis
  proof (cases "validate_plan_structure env plan (user_profile s)")
    case (Inl e)
    with Some assms show ?thesis
      by (auto simp: plan_validation_node_def note_error_def)
  next
    case (Inr errs)
    define fixed where
      "fixed = (if errs \<noteq> [] then fix_plan_issues plan errs (user_profile s) else plan)"
    note first = plan_validation_node_unfold [OF Some Inr fixed_def]
    have no_raise: "validate_plan_structure env fixed (user_profile s) \<noteq> Inl e" for e
    proof (cases "errs = []")
      case True
      with Inr show ?thesis by (simp add: fixed_def)
    next
      case False
      with Inr validate_fix_raises [of env plan errs "user_profile s" "user_profile s" e]
      show ?thesis by (simp add: fixed_def)
    qed
    obtain errs' where e': "validate_plan_structure env fixed (user_profile s) = Inr errs'"
      using no_raise by (cases "validate_plan_structure env fixed (user_profile s)") auto
    have again: "fixed = (if errs' \<noteq> [] then fix_plan_issues fixed errs' (user_profile s) else fixed)"
    proof (cases "errs = []")
      case True
      then have "fixed = plan" by (simp add: fixed_def)
      with e' Inr True show ?thesis by simp
    next
      case False
      then show ?thesis by (simp add: fixed_def fix_plan_issues_idem)
    qed
    have second: "plan_validation_node env d t
           = (case save_workout_plan d fixed of
                Inl e \<Rightarrow>
                  Inr (note_error env ''Plan validation error: '' e (t\<lparr>current_plan := Some fixed\<rparr>),
                       d)
              | Inr d' \<Rightarrow>
                  Inr (t\<lparr>current_plan := Some fixed, workflow_stage := ''plan_validated''\<rparr>, d'))"
      if "current_plan t = Some fixed" "user_profile t = user_profile s" for t d
    proof -
      have e_t: "validate_plan_structure env fixed (user_profile t) = Inr errs'"
        unfolding that(2) by (rule e')
      have again_t: "fixed = (if errs' \<noteq> [] then fix_plan_issues fixed errs' (user_profile t)
                              else fixed)"
        unfolding that(2) by (rule again)
      show ?thesis
        by (rule plan_validation_node_unfold [OF that(1) e_t again_t])
    qed
    show ?thesis
    proof (cases "save_workout_plan db fixed")
      case (Inl e)
      with first assms
      have s': "s' = note_error env ''Plan validation error: '' e (s\<lparr>current_plan := Some fixed\<rparr>)"
        and db': "db' = db"
        by simp_all
      have "plan_validation_node env db' s'
              = Inr (note_error env ''Plan validation error: '' e (s'\<lparr>current_plan := Some fixed\<rparr>), db')"
        using second [of s' db'] Inl by (simp add: s' db' note_error_def)
      then show ?thesis
        by (simp add: s' note_error_def)
    next
      case (Inr saved)
      with first assms
      have s': "s' = s\<lparr>current_plan := Some fixed, workflow_stage := ''plan_validated''\<rparr>"
        and db': "db' = saved"
        by simp_all
      from Inr have "save_workout_plan db' fixed = Inr db'"
        unfolding db' by (rule save_workout_plan_idem)
      then have "plan_validation_node env db' s'
              = Inr (s'\<lparr>current_plan := Some fixed, workflow_stage := ''plan_validated''\<rparr>, db')"
        using second [of s' db'] by (simp add: s')
      then show ?thesis
        by (simp add: s')
    qed
  qed
qed

text \<open>
  C5. Repair is idempotent and additive only. Fixing a fixed plan changes nothing, and
  running the validation stage again on the state and repository it returned returns
  them unchanged. The fix keeps the number of days; at every position it keeps the
  day's tag, focus and estimated duration, keeps a non-empty exercise list as it is and
  gives an empty one exactly the placeholder exercise; nothing but the day list of the
  plan changes. On the fixed plan the validator reports the "no days" finding and the
  time-budget findings of the plan as it was, and no "no exercises" finding: a day
  over its time budget stays over it.
\<close>

theorem repair_idempotent_additive:
  "fix_plan_issues (fix_plan_issues plan es pr) es' pr' = fix_plan_issues plan es pr
   \<and> (plan_validation_node env db s = Inr (s', db')
        \<longrightarrow> plan_validation_node env db' s' = Inr (s', db'))
   \<and> length (days (fix_plan_issues plan es pr)) = length (days plan)
   \<and> (\<forall>i < length (days plan).
        exercises (days (fix_plan_issues plan es pr) ! i)
          = (if exercises (days plan ! i) = [] then [placeholder_exercise]
             else exercises (days plan ! i))
        \<and> estimated_duration (days (fix_plan_issues plan es pr) ! i)
          = estimated_duration (days plan ! i)
        \<and> day (days (fix_plan_issues plan es pr) ! i) = day (days plan ! i)
        \<and> focus (days (fix_plan_issues plan es pr) ! i) = focus (days plan ! i))
   \<and> fix_plan_issues plan es pr = plan\<lparr>days := days (fix_plan_issues plan es pr)\<rparr>
   \<and> validate_plan_structure env (fix_plan_issues plan es pr) (Some p)
       = Inr ((if days plan = [] then [''No workout days defined''] else [])
              @ concat (map (\<lambda>d. if session_duration (schedule p) + 15 < estimated_duration d
                                  then [format_day env (day d) @ '' exceeds time limit'']
                                  else [])
                            (days plan)))"
proof (intro conjI)
  show "fix_plan_issues (fix_plan_issues plan es pr) es' pr' = fix_plan_issues plan es pr"
    by (rule fix_plan_issues_idem)
  show "plan_validation_node env db s = Inr (s', db')
        \<longrightarrow> plan_validation_node env db' s' = Inr (s', db')"
    using plan_validation_node_idem by blast
  show "length (days (fix_plan_issues plan es pr)) = length (days plan)"
    by (simp add: fix_plan_issues_def)
  show "\<forall>i < length (days plan).
        exercises (days (fix_plan_issues plan es pr) ! i)
          = (if exercises (days plan ! i) = [] then [placeholder_exercise]
             else exercises (days plan ! i))
        \<and> estimated_duration (days (fix_plan_issues plan es pr) ! i)
          = estimated_duration (days plan ! i)
        \<and> day (days (fix_plan_issues plan es pr) ! i) = day (days plan ! i)
        \<and> focus (days (fix_plan_issues plan es pr) ! i) = focus (days plan ! i)"
    by (simp add: fix_plan_issues_def fix_day_def)
  show "fix_plan_issues plan es pr = plan\<lparr>days := days (fix_plan_issues plan es pr)\<rparr>"
    by (simp add: fix_plan_issues_def)
  have f: "spec_day_findings env p (fix_day d)
          = (if session_duration (schedule p) + 15 < estimated_duration d
             then [format_day env (day d) @ '' exceeds time limit''] else [])" for d
    by (simp add: spec_day_findings_def fix_day_def)
  have m: "map (spec_day_findings env p \<circ> fix_day) ds
          = map (\<lambda>d. if session_duration (schedule p) + 15 < estimated_duration d
                      then [format_day env (day d) @ '' exceeds time limit''] else []) ds"
    for ds
    by (simp add: f)
  show "validate_plan_structure env (fix_plan_issues plan es pr) (Some p)
       = Inr ((if days plan = [] then [''No workout days defined''] else [])
              @ concat (map (\<lambda>d. if session_duration (schedule p) + 15 < estimated_duration d
                                  then [format_day env (day d) @ '' exceeds time limit'']
                                  else [])
                            (days plan)))"
    by (simp add: validate_plan_structure_def validate_days_loop_acc fix_plan_issues_def m)
qed

theorem repair_idempotent_additive_witness:
  "plan_validation_node (sample_env (Inr [])) (sample_db []) (sample_state\<lparr>current_plan := Some unfit_plan\<rparr>)
     = Inr (sample_state\<lparr>current_plan := Some (fix_plan_issues unfit_plan [] None),
                         workflow_stage := ''plan_validated''\<rparr>,
            (sample_db [])\<lparr>workout_plans := [fix_plan_issues unfit_plan [] None]\<rparr>)
   \<and> plan_validation_node (sample_env (Inr []))
        ((sample_db [])\<lparr>workout_plans := [fix_plan_issues unfit_plan [] None]\<rparr>)
        (sample_state\<lparr>current_plan := Some (fix_plan_issues unfit_plan [] None),
                      workflow_stage := ''plan_validated''\<rparr>)
     = Inr (sample_state\<lparr>current_plan := Some (fix_plan_issues unfit_plan [] None),
                         workflow_stage := ''plan_validated''\<rparr>,
            (sample_db [])\<lparr>workout_plans := [fix_plan_issues unfit_plan [] None]\<rparr>)
   \<and> exercises (days (fix_plan_issues unfit_plan [] None) ! 0) = [placeholder_exercise]
   \<and> estimated_duration (days (fix_plan_issues unfit_plan [] None) ! 0) = 61
   \<and> days (fix_plan_issues unfit_plan [] None) ! 1 = simple_tuesday"
proof -
  have saved: "save_workout_plan (sample_db []) (fix_plan_issues unfit_plan [] None)
                 = Inr ((sample_db [])\<lparr>workout_plans := [fix_plan_issues unfit_plan [] None]\<rparr>)"
    by (simp add: save_workout_plan_def sqlite_int_def fix_plan_issues_def unfit_plan_def
          sample_db_def sample_plan_fields)
  have first:
    "plan_validation_node (sample_env (Inr [])) (sample_db [])
        (sample_state\<lparr>current_plan := Some unfit_plan\<rparr>)
     = Inr (sample_state\<lparr>current_plan := Some (fix_plan_issues unfit_plan [] None),
                         workflow_stage := ''plan_validated''\<rparr>,
            (sample_db [])\<lparr>workout_plans := [fix_plan_issues unfit_plan [] None]\<rparr>)"
  proof -
    have v: "validate_plan_structure (sample_env (Inr [])) unfit_plan
               (user_profile (sample_state\<lparr>current_plan := Some unfit_plan\<rparr>))
             = Inr [''monday exceeds time limit'', ''monday has no exercises'']"
      by (simp add: validate_plan_structure_def sample_state_def unfit_plan_def sample_env_def
            sample_profile_def simple_tuesday_def WorkoutDay_value_def)
    have fx: "fix_plan_issues unfit_plan [] None
               = (if [''monday exceeds time limit'', ''monday has no exercises''] \<noteq> []
                  then fix_plan_issues unfit_plan
                         [''monday exceeds time limit'', ''monday has no exercises'']
                         (user_profile (sample_state\<lparr>current_plan := Some unfit_plan\<rparr>))
                  else unfit_plan)"
      by (simp add: fix_plan_issues_def)
    have c: "current_plan (sample_state\<lparr>current_plan := Some unfit_plan\<rparr>) = Some unfit_plan"
      by simp
    show ?thesis
      by (simp add: plan_validation_node_unfold [OF c v fx] saved)
  qed
  have len: "length (days unfit_plan) = 2"
    by (simp add: unfit_plan_def)
  show ?thesis
    using first len
      repair_idempotent_additive [where plan = unfit_plan and es = "[]" and pr = None
        and es' = "[]" and pr' = None and env = "sample_env (Inr [])" and db = "sample_db []"
        and s = "sample_state\<lparr>current_plan := Some unfit_plan\<rparr>"
        and s' = "sample_state\<lparr>current_plan := Some (fix_plan_issues unfit_plan [] None),
                         workflow_stage := ''plan_validated''\<rparr>"
        and db' = "(sample_db [])\<lparr>workout_plans := [fix_plan_issues unfit_plan [] None]\<rparr>"]
    by (simp add: unfit_plan_def simple_tuesday_def)
qed

subsection \<open>Metrics Calculator\<close>

lemma planned_int:
  "(case cp of Some plan \<Rightarrow> int (length (days plan)) | None \<Rightarrow> 5)
     = int (case cp of Some plan \<Rightarrow> length (days plan) | None \<Rightarrow> 5)"
  by (cases cp) simp_all

lemma sqlite_int_one: "sqlite_int 1" and sqlite_int_big: "\<not> sqlite_int (2 ^ 63)"
  by (simp_all add: sqlite_int_def)

lemma get_week_logs_sample:
  "get_week_logs (sample_db ls) ''alice'' 1
     = Inr (filter (\<lambda>l. wl_user_id l = ''alice'' \<and> wl_plan_id l = ''plan-'') ls)"
proof -
  have "filter (\<lambda>l. wl_user_id l = ''alice'' \<and>
                 (case get_workout_plan (sample_db ls) (wl_plan_id l) of
                    None \<Rightarrow> False
                  | Some wp \<Rightarrow> week_number wp = 1))
            (workout_logs (sample_db ls))
        = filter (\<lambda>l. wl_user_id l = ''alice'' \<and> wl_plan_id l = ''plan-'') ls"
    by (rule filter_cong) (auto simp: get_workout_plan_def sample_db_def sample_plan_fields)
  then show ?thesis
    by (simp add: get_week_logs_def sqlite_int_one)
qed

lemma week_logs_five: "get_week_logs (sample_db five_logs) ''alice'' 1 = Inr five_logs"
  by (simp add: get_week_logs_sample five_logs_def sample_log_def)

lemma week_logs_six: "get_week_logs (sample_db six_logs) ''alice'' 1 = Inr six_logs"
  by (simp add: get_week_logs_sample six_logs_def five_logs_def sample_log_def)

lemma week_logs_none: "get_week_logs (sample_db []) ''alice'' 1 = Inr []"
  by (simp add: get_week_logs_sample)

text \<open>
  C8, as amended. With a profile in the state: when the week's log query returns no
  logs, the metrics stage returns the state with only the stage tag changed, to
  "metrics_calculated", so the metrics field keeps its value (absent when it was
  absent) and no error is noted. The query returns no logs exactly when sqlite can
  bind the week number (signed 64 bits) and the table holds no log of the user whose
  plan is of that week. When sqlite cannot bind the week number the query raises: the
  stage returns the state with only the error note changed, so the metrics field
  keeps its value there too, and the stage tag is not advanced.
\<close>

theorem metrics_zero_logs_unset:
  assumes "user_profile s = Some profile"
  shows "(get_week_logs db (user_id profile) (current_week s) = Inr []
            \<longrightarrow> (\<exists>s'. metrics_calculation_node env db s = Inr s'
                   \<and> s' = s\<lparr>workflow_stage := ''metrics_calculated''\<rparr>
                   \<and> metrics s' = metrics s
                   \<and> error_context s' = error_context s
                   \<and> workflow_stage s' = ''metrics_calculated''))
         \<and> (get_week_logs db (user_id profile) (current_week s) = Inr []
            \<longleftrightarrow> sqlite_int (current_week s)
                \<and> \<not> (\<exists>l \<in> set (workout_logs db). wl_user_id l = user_id profile
                         \<and> (\<exists>wp. get_workout_plan db (wl_plan_id l) = Some wp
                                  \<and> week_number wp = current_week s)))
         \<and> (\<not> sqlite_int (current_week s)
            \<longrightarrow> (\<exists>s'. metrics_calculation_node env db s = Inr s'
                   \<and> s' = s\<lparr>error_context :=
                               Some (''Metrics calculation error: '' @ str_exn env OverflowError)\<rparr>
                   \<and> metrics s' = metrics s
                   \<and> workflow_stage s' = workflow_stage s))"
proof (intro conjI impI)
  assume "get_week_logs db (user_id profile) (current_week s) = Inr []"
  then show "\<exists>s'. metrics_calculation_node env db s = Inr s'
                   \<and> s' = s\<lparr>workflow_stage := ''metrics_calculated''\<rparr>
                   \<and> metrics s' = metrics s
                   \<and> error_context s' = error_context s
                   \<and> workflow_stage s' = ''metrics_calculated''"
    by (simp add: metrics_calculation_node_def assms)
next
  show "get_week_logs db (user_id profile) (current_week s) = Inr []
            \<longleftrightarrow> sqlite_int (current_week s)
                \<and> \<not> (\<exists>l \<in> set (workout_logs db). wl_user_id l = user_id profile
                         \<and> (\<exists>wp. get_workout_plan db (wl_plan_id l) = Some wp
                                  \<and> week_number wp = current_week s))"
    by (auto simp: get_week_logs_def filter_empty_conv split: option.splits)
next
  assume "\<not> sqlite_int (current_week s)"
  then have "get_week_logs db (user_id profile) (current_week s) = Inl OverflowError"
    by (simp add: get_week_logs_def)
  then show "\<exists>s'. metrics_calculation_node env db s = Inr s'
                   \<and> s' = s\<lparr>error_context :=
                               Some (''Metrics calculation error: '' @ str_exn env OverflowError)\<rparr>
                   \<and> metrics s' = metrics s
                   \<and> workflow_stage s' = workflow_stage s"
    by (simp add: metrics_calculation_node_def assms note_error_def)
qed

theorem metrics_zero_logs_unset_witness:
  "metrics_calculation_node (sample_env (Inr [])) (sample_db []) sample_state
     = Inr (sample_state\<lparr>workflow_stage := ''metrics_calculated''\<rparr>)
   \<and> metrics (sample_state\<lparr>workflow_stage := ''metrics_calculated''\<rparr>) = None
   \<and> get_week_logs (sample_db []) ''alice'' 1 = Inr []
   \<and> metrics_calculation_node (sample_env (Inr [])) (sample_db [])
        (sample_state\<lparr>current_week := - (2 ^ 63) - 1\<rparr>)
     = Inr (sample_state\<lparr>current_week := - (2 ^ 63) - 1,
                          error_context := Some ''Metrics calculation error: error''\<rparr>)"
proof -
  have p: "user_profile sample_state = Some sample_profile"
    by (simp add: sample_state_def)
  have l: "get_week_logs (sample_db []) (user_id sample_profile) (current_week sample_state)
             = Inr []"
    by (simp add: week_logs_none sample_profile_def sample_state_def)
  have p2: "user_profile (sample_state\<lparr>current_week := - (2 ^ 63) - 1\<rparr>) = Some sample_profile"
    by (simp add: sample_state_def)
  have big: "\<not> sqlite_int (current_week (sample_state\<lparr>current_week := - (2 ^ 63) - 1\<rparr>))"
    by (simp add: sqlite_int_def)
  have first: "metrics_calculation_node (sample_env (Inr [])) (sample_db []) sample_state
     = Inr (sample_state\<lparr>workflow_stage := ''metrics_calculated''\<rparr>)"
    using metrics_zero_logs_unset [OF p, of "sample_db []" "sample_env (Inr [])"] l
    by simp
  have second: "metrics_calculation_node (sample_env (Inr [])) (sample_db [])
        (sample_state\<lparr>current_week := - (2 ^ 63) - 1\<rparr>)
     = Inr (sample_state\<lparr>current_week := - (2 ^ 63) - 1,
                          error_context := Some ''Metrics calculation error: error''\<rparr>)"
    using metrics_zero_logs_unset [OF p2, of "sample_db []" "sample_env (Inr [])"] big
    by (simp add: sample_env_def)
  from first second show ?thesis
    by (simp add: week_logs_none) (simp add: sample_state_def)
qed

text \<open>
  C8 as stated fails: for the week number \<open>2 ^ 63\<close> the repository holds no log at all,
  yet the stage does not advance the stage tag; it notes the error of the query.
\<close>

theorem metrics_zero_logs_unset_counterexample:
  "metrics_calculation_node (sample_env (Inr [])) (sample_db [])
      (sample_state\<lparr>current_week := 2 ^ 63\<rparr>)
     = Inr (sample_state\<lparr>current_week := 2 ^ 63,
                          error_context := Some ''Metrics calculation error: error''\<rparr>)
   \<and> workflow_stage (sample_state\<lparr>current_week := 2 ^ 63,
                                   error_context := Some ''Metrics calculation error: error''\<rparr>)
     = ''plan_generation''
   \<and> workout_logs (sample_db []) = []
   \<and> user_profile (sample_state\<lparr>current_week := 2 ^ 63\<rparr>) = Some sample_profile"
proof -
  have "get_week_logs (sample_db []) ''alice'' (2 ^ 63) = Inl OverflowError"
    by (simp add: get_week_logs_def sqlite_int_def)
  then have "metrics_calculation_node (sample_env (Inr [])) (sample_db [])
      (sample_state\<lparr>current_week := 2 ^ 63\<rparr>)
     = Inr (sample_state\<lparr>current_week := 2 ^ 63,
                          error_context := Some ''Metrics calculation error: error''\<rparr>)"
    by (simp add: metrics_calculation_node_def sample_state_def sample_profile_def
          note_error_def sample_env_def)
  then show ?thesis
    by (simp add: sample_state_def sample_db_def)
qed

text \<open>
  C10. When the week's logs outnumber the planned sessions (the day count of the
  current plan, 5 without one), the metrics stage produces no metrics: it returns the
  state with only the error note changed, to the stage's message for the failure, so
  the metrics field and the stage tag keep their values. The failure is the validation
  error of \<^verbatim>\<open>WeeklyMetrics\<close> (adherence above 1.0) when the plan has a day, and the
  division by zero when it has none.
\<close>

theorem metrics_over_planned_unset:
  assumes "user_profile s = Some profile"
    and "planned = (case current_plan s of Some plan \<Rightarrow> length (days plan) | None \<Rightarrow> 5)"
    and "get_week_logs db (user_id profile) (current_week s) = Inr week_logs"
    and "planned < length week_logs"
  shows "\<exists>e s'. metrics_calculation_node env db s = Inr s'
           \<and> s' = s\<lparr>error_context := Some (''Metrics calculation error: '' @ str_exn env e)\<rparr>
           \<and> e = (if planned = 0 then ZeroDivisionError else ValidationError)
           \<and> metrics s' = metrics s
           \<and> workflow_stage s' = workflow_stage s"
proof -
  from assms(4) have ne: "week_logs \<noteq> []" by auto
  have pl: "(case current_plan s of Some plan \<Rightarrow> int (length (days plan)) | None \<Rightarrow> 5) = int planned"
    by (simp add: planned_int assms(2))
  show ?thesis
  proof (cases "planned = 0")
    case True
    show ?thesis
      unfolding metrics_calculation_node_def Let_def
      by (simp add: assms(1,3) ne pl True note_error_def)
  next
    case False
    with assms(4) have "1 < real (length week_logs) / real planned"
      by simp
    then have bad: "\<not> (real (length week_logs) / real planned \<le> 1)"
      by simp
    show ?thesis
      unfolding metrics_calculation_node_def Let_def
      by (simp add: assms(1,3) ne pl False note_error_def WeeklyMetrics_validate_def bad)
  qed
qed

theorem metrics_over_planned_unset_witness:
  "metrics_calculation_node (sample_env (Inr [])) (sample_db six_logs) sample_state
     = Inr (sample_state\<lparr>error_context := Some ''Metrics calculation error: error''\<rparr>)
   \<and> metrics (sample_state\<lparr>error_context := Some ''Metrics calculation error: error''\<rparr>) = None
   \<and> get_week_logs (sample_db six_logs) ''alice'' 1 = Inr six_logs
   \<and> length six_logs = 6
   \<and> length (days sample_plan) = 5
   \<and> metrics_calculation_node (sample_env (Inr [])) (sample_db five_logs)
        (sample_state\<lparr>current_plan := Some (sample_plan\<lparr>days := []\<rparr>)\<rparr>)
     = Inr (sample_state\<lparr>current_plan := Some (sample_plan\<lparr>days := []\<rparr>),
                          error_context := Some ''Metrics calculation error: error''\<rparr>)"
proof -
  have p: "user_profile sample_state = Some sample_profile"
    by (simp add: sample_state_def)
  have pl: "5 = (case current_plan sample_state of Some plan \<Rightarrow> length (days plan) | None \<Rightarrow> 5)"
    by (simp add: sample_state_def sample_plan_fields)
  have six: "get_week_logs (sample_db six_logs) (user_id sample_profile)
               (current_week sample_state) = Inr six_logs"
    by (simp add: week_logs_six sample_profile_def sample_state_def)
  have len: "length six_logs = 6"
    by (simp add: six_logs_def five_logs_def)
  have more: "5 < length six_logs"
    by (simp add: len)
  have p0: "user_profile (sample_state\<lparr>current_plan := Some (sample_plan\<lparr>days := []\<rparr>)\<rparr>)
              = Some sample_profile"
    by (simp add: sample_state_def)
  have pl0: "0 = (case current_plan (sample_state\<lparr>current_plan := Some (sample_plan\<lparr>days := []\<rparr>)\<rparr>)
                  of Some plan \<Rightarrow> length (days plan) | None \<Rightarrow> 5)"
    by simp
  have five: "get_week_logs (sample_db five_logs) (user_id sample_profile)
            (current_week (sample_state\<lparr>current_plan := Some (sample_plan\<lparr>days := []\<rparr>)\<rparr>))
          = Inr five_logs"
    by (simp add: week_logs_five sample_profile_def sample_state_def)
  have more0: "0 < length five_logs"
    by (simp add: five_logs_def)
  show ?thesis
    using metrics_over_planned_unset [OF p pl six more, of "sample_env (Inr [])"]
          metrics_over_planned_unset [OF p0 pl0 five more0, of "sample_env (Inr [])"]
    by (simp add: sample_env_def week_logs_six len sample_plan_fields)
       (simp add: sample_state_def)
qed

text \<open>
  C6, as amended. For every non-empty list of week logs that does not outnumber the
  planned sessions (the day count of the current plan, 5 without one), the metrics
  stage stores metrics with: adherence rate = number of logs / planned sessions;
  average exertion = mean of the logs' session RPE; strength-gain flag true exactly
  when average exertion < 8 and adherence > 0.8; endurance flag true; form quality
  "improving" when average exertion < 7 and "stable" otherwise; concerns
  ["high_fatigue"] when average exertion > 8.5 and empty otherwise; and it advances
  the stage tag.
\<close>

theorem metrics_computed:
  assumes "user_profile s = Some profile"
    and "get_week_logs db (user_id profile) (current_week s) = Inr week_logs"
    and "planned = (case current_plan s of Some plan \<Rightarrow> length (days plan) | None \<Rightarrow> 5)"
    and "week_logs \<noteq> []"
    and "length week_logs \<le> planned"
  shows "\<exists>m. metrics_calculation_node env db s
               = Inr (s\<lparr>metrics := Some m, workflow_stage := ''metrics_calculated''\<rparr>)
           \<and> adherence_rate m = real (length week_logs) / real planned
           \<and> average_rpe m
               = real_of_int (sum_list (map session_rpe week_logs)) / real (length week_logs)
           \<and> strength_gains (progression_indicators m)
               = (average_rpe m < 8 \<and> adherence_rate m > 0.8)
           \<and> endurance_improvements (progression_indicators m)
           \<and> form_quality (progression_indicators m)
               = (if average_rpe m < 7 then ''improving'' else ''stable'')
           \<and> concerns m = (if average_rpe m > 8.5 then [''high_fatigue''] else [])
           \<and> completed_sessions m = int (length week_logs)
           \<and> total_planned_sessions m = int planned
           \<and> wm_user_id m = user_id profile
           \<and> wm_week_number m = current_week s"
proof -
  define adh where "adh = real (length week_logs) / real planned"
  define avg where
    "avg = real_of_int (sum_list (map session_rpe week_logs)) / real (length week_logs)"
  define m where
    "m = \<lparr>wm_user_id = user_id profile, wm_week_number = current_week s,
           adherence_rate = adh, average_rpe = avg,
           completed_sessions = int (length week_logs),
           total_planned_sessions = int planned,
           progression_indicators =
             \<lparr>strength_gains = (avg < 8 \<and> adh > 0.8), endurance_improvements = True,
              form_quality = (if avg < 7 then ''improving'' else ''stable'')\<rparr>,
           concerns = (if avg > 8.5 then [''high_fatigue''] else [])\<rparr>"
  have pl: "(case current_plan s of Some plan \<Rightarrow> int (length (days plan)) | None \<Rightarrow> 5) = int planned"
    by (simp add: planned_int assms(3))
  from assms(4,5) have pos: "planned \<noteq> 0"
    by (cases week_logs) auto
  from assms(5) pos have "0 \<le> adh \<and> adh \<le> 1"
    by (simp add: adh_def)
  then have valid: "WeeklyMetrics_validate m = Inr m"
    by (simp add: WeeklyMetrics_validate_def m_def)
  have node: "metrics_calculation_node env db s
               = Inr (s\<lparr>metrics := Some m, workflow_stage := ''metrics_calculated''\<rparr>)"
    unfolding metrics_calculation_node_def Let_def
    apply (simp only: assms(1) option.case assms(2) sum.case pl)
    apply (simp only: of_nat_eq_0_iff pos if_False of_int_of_nat_eq)
    apply (fold adh_def avg_def)
    apply (fold m_def)
    apply (simp add: valid assms(4))
    done
  show ?thesis
    apply (rule exI [of _ m])
    apply (simp only: node)
    apply (simp add: m_def adh_def avg_def)
    done
qed

theorem metrics_computed_witness:
  "metrics_calculation_node (sample_env (Inr [])) (sample_db five_logs) sample_state
     = Inr (sample_state
             \<lparr>metrics := Some \<lparr>wm_user_id = ''alice'', wm_week_number = 1, adherence_rate = 1,
                               average_rpe = 6.8, completed_sessions = 5,
                               total_planned_sessions = 5,
                               progression_indicators =
                                 \<lparr>strength_gains = True, endurance_improvements = True,
                                  form_quality = ''improving''\<rparr>,
                               concerns = []\<rparr>,
               workflow_stage := ''metrics_calculated''\<rparr>)
   \<and> map session_rpe five_logs = [7, 6, 7, 8, 6]"
proof -
  have p: "user_profile sample_state = Some sample_profile"
    by (simp add: sample_state_def)
  have l: "get_week_logs (sample_db five_logs) (user_id sample_profile)
             (current_week sample_state) = Inr five_logs"
    by (simp add: week_logs_five sample_profile_def sample_state_def)
  have pl: "5 = (case current_plan sample_state of Some plan \<Rightarrow> length (days plan) | None \<Rightarrow> 5)"
    by (simp add: sample_state_def sample_plan_fields)
  have ne: "five_logs \<noteq> []" and le: "length five_logs \<le> 5"
    and rpes: "map session_rpe five_logs = [7, 6, 7, 8, 6]"
    by (simp_all add: five_logs_def sample_log_def)
  obtain m where node: "metrics_calculation_node (sample_env (Inr [])) (sample_db five_logs)
        sample_state = Inr (sample_state\<lparr>metrics := Some m, workflow_stage := ''metrics_calculated''\<rparr>)"
    and f: "adherence_rate m = real (length five_logs) / real (5::nat)"
      "average_rpe m = real_of_int (sum_list (map session_rpe five_logs)) / real (length five_logs)"
      "strength_gains (progression_indicators m) = (average_rpe m < 8 \<and> adherence_rate m > 0.8)"
      "endurance_improvements (progression_indicators m)"
      "form_quality (progression_indicators m) = (if average_rpe m < 7 then ''improving'' else ''stable'')"
      "concerns m = (if average_rpe m > 8.5 then [''high_fatigue''] else [])"
      "completed_sessions m = int (length five_logs)"
      "total_planned_sessions m = int 5"
      "wm_user_id m = user_id sample_profile"
      "wm_week_number m = current_week sample_state"
    using metrics_computed [OF p l pl ne le, of "sample_env (Inr [])"] by blast
  have len: "length five_logs = 5" by (simp add: five_logs_def)
  have avg: "average_rpe m = 6.8" using f(2) by (simp add: rpes len)
  have adh: "adherence_rate m = 1" using f(1) by (simp add: len)
  have "m = \<lparr>wm_user_id = ''alice'', wm_week_number = 1, adherence_rate = 1,
             average_rpe = 6.8, completed_sessions = 5, total_planned_sessions = 5,
             progression_indicators =
               \<lparr>strength_gains = True, endurance_improvements = True,
                form_quality = ''improving''\<rparr>,
             concerns = []\<rparr>"
    using f(3-10) avg adh
    by (cases m, cases "progression_indicators m")
       (simp add: len sample_profile_def sample_state_def)
  with node rpes show ?thesis by simp
qed

text \<open>
  C6 as stated fails: six logs against the default of five planned sessions give no
  metrics at all.
\<close>

theorem metrics_computed_counterexample:
  "metrics_calculation_node (sample_env (Inr [])) (sample_db six_logs)
      (sample_state\<lparr>current_plan := None\<rparr>)
     = Inr (sample_state\<lparr>current_plan := None,
                          error_context := Some ''Metrics calculation error: error''\<rparr>)
   \<and> metrics (sample_state\<lparr>current_plan := None,
                            error_context := Some ''Metrics calculation error: error''\<rparr>) = None
   \<and> get_week_logs (sample_db six_logs) ''alice'' 1 = Inr six_logs
   \<and> length six_logs = 6"
proof -
  have len: "length six_logs = 6" and sum: "sum_list (map session_rpe six_logs) = 43"
    and ne: "six_logs \<noteq> []"
    by (simp_all add: six_logs_def five_logs_def sample_log_def)
  have "metrics_calculation_node (sample_env (Inr [])) (sample_db six_logs)
      (sample_state\<lparr>current_plan := None\<rparr>)
     = Inr (sample_state\<lparr>current_plan := None,
                          error_context := Some ''Metrics calculation error: error''\<rparr>)"
    unfolding metrics_calculation_node_def Let_def
    by (simp add: sample_state_def sample_profile_def week_logs_six len sum ne
          WeeklyMetrics_validate_def note_error_def sample_env_def)
  then show ?thesis
    by (simp add: week_logs_six len sample_state_def)
qed
subsection \<open>Adaptation Decider\<close>

text \<open>
  C7. For every metrics value, absent or present, and every feedback insights that are
  absent or a dict, the adaptation stage stores exactly the tags whose rules fire, each
  rule on its own, in the order reduce_volume, deload_intensity, exercise_substitution,
  adjust_timing: adherence < 0.6; average exertion > 8.5; a truthy \<^verbatim>\<open>pain_flags\<close> entry;
  a truthy \<^verbatim>\<open>schedule_conflicts\<close> entry. An entry that is a list is truthy exactly when
  it is not empty.
\<close>

theorem adaptation_rules:
  assumes "(case map_of (feedback_analysis s) ''insights'' of None \<Rightarrow> PDict [] | Some v \<Rightarrow> v)
             = PDict kvs"
  shows "adaptation_decision_node env s
           = Inr (s\<lparr>adaptation_context :=
                      [(''adaptations'',
                        PList (map PStr
                          ((if \<exists>m. metrics s = Some m \<and> adherence_rate m < 0.6
                            then [''reduce_volume''] else [])
                           @ (if \<exists>m. metrics s = Some m \<and> average_rpe m > 8.5
                              then [''deload_intensity''] else [])
                           @ (if \<exists>v. map_of kvs ''pain_flags'' = Some v \<and> truthy v
                              then [''exercise_substitution''] else [])
                           @ (if \<exists>v. map_of kvs ''schedule_conflicts'' = Some v \<and> truthy v
                              then [''adjust_timing''] else [])))),
                       (''reasoning'', PStr (build_adaptation_reasoning env (metrics s) (PDict kvs)))],
                    workflow_stage := ''adaptation_decided''\<rparr>)
         \<and> (\<forall>xs. map_of kvs ''pain_flags'' = Some (PList xs)
                \<longrightarrow> ((\<exists>v. map_of kvs ''pain_flags'' = Some v \<and> truthy v) \<longleftrightarrow> xs \<noteq> []))
         \<and> (\<forall>xs. map_of kvs ''schedule_conflicts'' = Some (PList xs)
                \<longrightarrow> ((\<exists>v. map_of kvs ''schedule_conflicts'' = Some v \<and> truthy v) \<longleftrightarrow> xs \<noteq> []))"
proof -
  have m1: "(case metrics s of None \<Rightarrow> False | Some wm \<Rightarrow> adherence_rate wm < 0.6)
              = (\<exists>m. metrics s = Some m \<and> adherence_rate m < 0.6)"
    by (cases "metrics s") simp_all
  have m2: "(case metrics s of None \<Rightarrow> False | Some wm \<Rightarrow> average_rpe wm > 8.5)
              = (\<exists>m. metrics s = Some m \<and> average_rpe m > 8.5)"
    by (cases "metrics s") simp_all
  have t: "truthy (case map_of kvs k of None \<Rightarrow> PNone | Some v \<Rightarrow> v)
             = (\<exists>v. map_of kvs k = Some v \<and> truthy v)" for k
    by (cases "map_of kvs k") simp_all
  show ?thesis
    unfolding adaptation_decision_node_def Let_def
    by (simp add: assms m1 m2 t)
qed

theorem adaptation_rules_witness:
  "map_of (adaptation_context (projr (adaptation_decision_node (sample_env (Inr []))
      (sample_state\<lparr>metrics := Some tired_metrics,
                    feedback_analysis := [(''insights'', sample_insights)]\<rparr>)))) ''adaptations''
     = Some (PList [PStr ''reduce_volume'', PStr ''deload_intensity'',
                    PStr ''exercise_substitution'', PStr ''adjust_timing''])
   \<and> adaptation_decision_node (sample_env (Inr [])) sample_state
     = Inr (sample_state\<lparr>adaptation_context :=
                            [(''adaptations'', PList []),
                             (''reasoning'', PStr ''No metrics available'')],
                          workflow_stage := ''adaptation_decided''\<rparr>)
   \<and> adaptation_decision_node (sample_env (Inr []))
        (sample_state\<lparr>metrics := Some (tired_metrics\<lparr>average_rpe := 8.5\<rparr>)\<rparr>)
     = Inr (sample_state\<lparr>metrics := Some (tired_metrics\<lparr>average_rpe := 8.5\<rparr>),
                          adaptation_context :=
                            [(''adaptations'', PList [PStr ''reduce_volume'']),
                             (''reasoning'', PStr ''metrics'')],
                          workflow_stage := ''adaptation_decided''\<rparr>)"
proof -
  have a: "(case map_of (feedback_analysis (sample_state\<lparr>metrics := Some tired_metrics,
                    feedback_analysis := [(''insights'', sample_insights)]\<rparr>)) ''insights''
            of None \<Rightarrow> PDict [] | Some v \<Rightarrow> v)
           = PDict [(''sentiment'', PStr ''negative''), (''fatigue_indicators'', PList []),
                    (''pain_flags'', PList [PStr ''knee'']), (''preferences'', PList []),
                    (''schedule_conflicts'', PList [PStr ''friday''])]"
    by (simp add: sample_insights_def)
  have b: "(case map_of (feedback_analysis sample_state) ''insights''
            of None \<Rightarrow> PDict [] | Some v \<Rightarrow> v) = PDict []"
    by (simp add: sample_state_def)
  have c: "(case map_of (feedback_analysis
                (sample_state\<lparr>metrics := Some (tired_metrics\<lparr>average_rpe := 8.5\<rparr>)\<rparr>)) ''insights''
            of None \<Rightarrow> PDict [] | Some v \<Rightarrow> v) = PDict []"
    by (simp add: sample_state_def)
  show ?thesis
    using adaptation_rules [OF a, of "sample_env (Inr [])"]
          adaptation_rules [OF b, of "sample_env (Inr [])"]
          adaptation_rules [OF c, of "sample_env (Inr [])"]
    by (simp add: tired_metrics_def build_adaptation_reasoning_def sample_env_def)
       (simp add: sample_state_def)
qed

subsection \<open>Plan Synthesizer\<close>








lemma save_workout_plan_raises:
  "save_workout_plan db plan = Inl e \<longleftrightarrow> \<not> sqlite_int (week_number plan) \<and> e = OverflowError"
  by (auto simp: save_workout_plan_def)



















subsection \<open>Workflow stages\<close>

text \<open>
  C2. The specification has no stage raise, also when the state has no profile. The plan
  generation stage does: with an absent profile the body of its \<^verbatim>\<open>try\<close> raises, and the
  handler's call of \<^verbatim>\<open>_create_fallback_plan\<close> raises AttributeError again, outside the
  \<^verbatim>\<open>try\<close>. This holds for every environment and every other field of the state.
\<close>

theorem plan_generation_node_raises:
  "plan_generation_node env (s\<lparr>user_profile := None\<rparr>) = Inl AttributeError"
  by (simp add: plan_generation_node_def plan_generation_try_def create_fallback_plan_def)

text \<open>
  The plan generation stage returns a state exactly when the state has a profile.
\<close>

theorem plan_generation_returns_iff_profile:
  "(\<exists>s'. plan_generation_node env s = Inr s') \<longleftrightarrow> user_profile s \<noteq> None"
  by (cases "user_profile s")
     (auto simp: plan_generation_node_def create_fallback_plan_def plan_generation_try_def
        split: prod.splits sum.splits)

text \<open>
  The other six stages return a state on every input: whatever is raised inside them
  is caught and noted.
\<close>

lemma returns_if:
  "\<exists>r. a = Inr r \<Longrightarrow> \<exists>r. b = Inr r \<Longrightarrow> \<exists>r. (if c then a else b) = Inr r"
  by simp

lemma returns_case_sum:
  "(\<And>e. \<exists>r. f e = Inr r) \<Longrightarrow> (\<And>m. \<exists>r. g m = Inr r)
     \<Longrightarrow> \<exists>r. (case v of Inl e \<Rightarrow> f e | Inr m \<Rightarrow> g m) = Inr r"
  by (cases v) auto

lemma returns_case_option:
  "\<exists>r. a = Inr r \<Longrightarrow> (\<And>x. \<exists>r. g x = Inr r)
     \<Longrightarrow> \<exists>r. (case v of None \<Rightarrow> a | Some x \<Rightarrow> g x) = Inr r"
  by (cases v) auto

lemmas returns_intros = returns_if returns_case_sum returns_case_option

theorem caught_stages_return:
  "(\<exists>s'. profile_intake_node env db s = Inr s')
   \<and> (\<exists>r. plan_validation_node env db s = Inr r)
   \<and> (\<exists>s'. feedback_analysis_node env s = Inr s')
   \<and> (\<exists>s'. metrics_calculation_node env db s = Inr s')
   \<and> (\<exists>s'. adaptation_decision_node env s = Inr s')
   \<and> (\<exists>s'. rationale_generation_node env s = Inr s')"
  unfolding profile_intake_node_def plan_validation_node_def feedback_analysis_node_def
    metrics_calculation_node_def adaptation_decision_node_def rationale_generation_node_def
    Let_def
  by (intro conjI; intro returns_intros; blast)

subsection \<open>Fallback of the response parser\<close>

text \<open>
  A response without an opening or without a closing brace, or one whose braced part
  the decoder rejects, is answered with the same fixed payload, whatever the response.
\<close>

theorem unparseable_response_fallback:
  "find_char (CHR ''{'') r = - 1 \<or> rfind_char (CHR ''}'') r = - 1
     \<or> (\<exists>e. json_loads env (py_slice r (find_char (CHR ''{'') r)
                                   (rfind_char (CHR ''}'') r + 1)) = Inl e)
   \<Longrightarrow> parse_ai_response env r = ai_response_fallback"
  by (auto simp: parse_ai_response_def Let_def)

theorem unparseable_response_fallback_witness:
  "parse_ai_response (sample_env (Inr [])) ''No plan today.'' = ai_response_fallback
   \<and> parse_ai_response (sample_env (Inr [])) ''{not json}'' = ai_response_fallback
   \<and> find_char (CHR ''{'') ''No plan today.'' = - 1"
proof -
  have a: "find_char (CHR ''{'') ''No plan today.'' = - 1"
    by simp
  have b: "\<exists>e. json_loads (sample_env (Inr []))
                 (py_slice ''{not json}'' (find_char (CHR ''{'') ''{not json}'')
                    (rfind_char (CHR ''}'') ''{not json}'' + 1)) = Inl e"
    by (simp add: sample_env_def)
  from a b show ?thesis
    using unparseable_response_fallback [of "''No plan today.''" "sample_env (Inr [])"]
          unparseable_response_fallback [of "''{not json}''" "sample_env (Inr [])"]
    by blast
qed

end
